theory Spec2Isabelle
  imports Complex_Main
begin

section \<open>Fixed-size vectors\<close>

text \<open>
  \<^verbatim>\<open>Scalar\<close> is the floating-point type of the simulator. It is modelled by the exact
  reals: every statement below is about the arithmetic the code writes down, not about
  rounding. \<^verbatim>\<open>Dune::FieldVector<Scalar, n>\<close> is a list whose first \<open>n\<close> entries are the
  components; as in Dune, every operation runs over the fixed index range \<open>0..<n\<close>.
\<close>

type_synonym Scalar = real
type_synonym FieldVector = "Scalar list"

definition fv_const :: "nat \<Rightarrow> Scalar \<Rightarrow> FieldVector" where
  "fv_const n c = replicate n c"

definition fv_add :: "nat \<Rightarrow> FieldVector \<Rightarrow> FieldVector \<Rightarrow> FieldVector" where
  "fv_add n a b = map (\<lambda>k. a ! k + b ! k) [0..<n]"

definition fv_sub :: "nat \<Rightarrow> FieldVector \<Rightarrow> FieldVector \<Rightarrow> FieldVector" where
  "fv_sub n a b = map (\<lambda>k. a ! k - b ! k) [0..<n]"

definition fv_scale :: "nat \<Rightarrow> FieldVector \<Rightarrow> Scalar \<Rightarrow> FieldVector" where
  "fv_scale n a c = map (\<lambda>k. a ! k * c) [0..<n]"

definition fv_dot :: "nat \<Rightarrow> FieldVector \<Rightarrow> FieldVector \<Rightarrow> Scalar" where
  "fv_dot n a b = sum_list (map (\<lambda>k. a ! k * b ! k) [0..<n])"

section \<open>The element-local residual of the box scheme\<close>

subsection \<open>Data\<close>

type_synonym PrimaryVariables = FieldVector
type_synonym ElementSolutionVector = "PrimaryVariables list"

text \<open>
  Modelled from the spec: the class \<^verbatim>\<open>BoundaryTypes\<close> is not among the sources. Each
  equation of a sub-control volume carries exactly one classification; a Dirichlet
  equation also names the primary variable it fixes (\<^verbatim>\<open>eqToDirichletIndex\<close>).
\<close>

datatype BoundaryKind = BCNone | BCDirichlet | BCNeumann

record BoundaryTypes =
  boundaryInfo :: "nat \<Rightarrow> BoundaryKind"
  eqToDirichletIndex :: "nat \<Rightarrow> nat"

definition isDirichlet :: "BoundaryTypes \<Rightarrow> nat \<Rightarrow> bool" where
  "isDirichlet bt eqIdx = (boundaryInfo bt eqIdx = BCDirichlet)"

definition isNeumann :: "BoundaryTypes \<Rightarrow> nat \<Rightarrow> bool" where
  "isNeumann bt eqIdx = (boundaryInfo bt eqIdx = BCNeumann)"

definition hasDirichlet :: "nat \<Rightarrow> BoundaryTypes \<Rightarrow> bool" where
  "hasDirichlet n bt = list_ex (isDirichlet bt) [0..<n]"

definition hasNeumann :: "nat \<Rightarrow> BoundaryTypes \<Rightarrow> bool" where
  "hasNeumann n bt = list_ex (isNeumann bt) [0..<n]"

text \<open>
  Modelled from the spec: \<^verbatim>\<open>ElementBoundaryTypes\<close> (not among the sources) holds one
  \<^verbatim>\<open>BoundaryTypes\<close> per sub-control volume; the element has a Dirichlet (Neumann)
  condition if any of its sub-control volumes has one.
\<close>

type_synonym ElementBoundaryTypes = "BoundaryTypes list"

definition elemHasDirichlet :: "nat \<Rightarrow> ElementBoundaryTypes \<Rightarrow> bool" where
  "elemHasDirichlet n bcs = list_ex (hasDirichlet n) bcs"

definition elemHasNeumann :: "nat \<Rightarrow> ElementBoundaryTypes \<Rightarrow> bool" where
  "elemHasNeumann n bcs = list_ex (hasNeumann n) bcs"

text \<open>The part of \<^verbatim>\<open>FVElementGeometry\<close> that the residual reads.\<close>

record SubControlVolume =
  volume :: Scalar

record SubControlVolumeFace =
  scvf_i :: nat
  scvf_j :: nat

record BoundaryFace =
  area :: Scalar

record FVElementGeometry =
  numVertices :: nat
  numEdges :: nat
  subContVol :: "SubControlVolume list"
  subContVolFace :: "SubControlVolumeFace list"
  boundaryFace :: "BoundaryFace list"
  boundaryFaceIndex :: "nat \<Rightarrow> nat \<Rightarrow> nat"

text \<open>An intersection of the grid view, as far as the Neumann pass reads it.\<close>

record BoxIntersection =
  boundary :: bool
  indexInInside :: nat

text \<open>
  The pointers the evaluator stores for the duration of one call. A pointer to data owned
  by the caller is modelled by the data; \<^verbatim>\<open>prevVolVarsPtr_\<close> can be null. The
  source's trailing underscore is dropped from field names, and a protected method
  \<^verbatim>\<open>f_\<close> is written \<open>f'\<close>.
\<close>

record ('p, 'e, 'v) Context =
  problemPtr :: 'p
  elemPtr :: 'e
  fvElemGeomPtr :: FVElementGeometry
  prevVolVarsPtr :: "'v list option"
  curVolVarsPtr :: "'v list"
  bcTypesPtr :: ElementBoundaryTypes

record ('p, 'e, 'v) BoxLocalResidual =
  callContext :: "('p, 'e, 'v) Context"
  residual :: ElementSolutionVector

text \<open>
  The properties that the type tag resolves: the number of equations, the three operations
  of the \<^verbatim>\<open>Implementation\<close> (the model-specific subclass), and the operations of the
  problem, the grid view and the volume variables that the evaluator calls. An operation
  with an output parameter returns the value it leaves there; \<open>dirichlet\<close> is taken to
  set every component that is read, so that its result depends on the vertex only. The
  operations of the implementation read the evaluator through its stored pointers, which
  is what \<^typ>\<open>('p, 'e, 'v) Context\<close> holds. The passes are those of the base class; an
  implementation that replaces a pass is outside this model.
\<close>

record ('p, 'e, 'v) TypeTag =
  numEq :: nat
  computeFlux :: "('p, 'e, 'v) Context \<Rightarrow> nat \<Rightarrow> PrimaryVariables"
  computeStorage :: "('p, 'e, 'v) Context \<Rightarrow> nat \<Rightarrow> bool \<Rightarrow> PrimaryVariables"
  computeSource :: "('p, 'e, 'v) Context \<Rightarrow> nat \<Rightarrow> PrimaryVariables"
  primaryVars :: "'v \<Rightarrow> PrimaryVariables"
  dirichlet :: "'p \<Rightarrow> 'e \<Rightarrow> nat \<Rightarrow> PrimaryVariables"
  neumann :: "'p \<Rightarrow> 'e \<Rightarrow> FVElementGeometry \<Rightarrow> BoxIntersection \<Rightarrow> nat \<Rightarrow> nat \<Rightarrow> PrimaryVariables"
  timeStepSize :: "'p \<Rightarrow> Scalar"
  updateCouplingParams :: "'p \<Rightarrow> 'e \<Rightarrow> 'p"
  intersections :: "'p \<Rightarrow> 'e \<Rightarrow> BoxIntersection list"
  refElemSize :: "'e \<Rightarrow> nat \<Rightarrow> nat"
  refElemSubEntity :: "'e \<Rightarrow> nat \<Rightarrow> nat \<Rightarrow> nat"
  fvGeomUpdate :: "'p \<Rightarrow> 'e \<Rightarrow> FVElementGeometry"
  volVarsUpdate :: "'p \<Rightarrow> 'e \<Rightarrow> FVElementGeometry \<Rightarrow> bool \<Rightarrow> 'v list"
  bcTypesUpdate :: "'p \<Rightarrow> 'e \<Rightarrow> FVElementGeometry \<Rightarrow> ElementBoundaryTypes"

subsection \<open>Writing one residual component\<close>

definition setEntry :: "ElementSolutionVector \<Rightarrow> nat \<Rightarrow> nat \<Rightarrow> Scalar \<Rightarrow> ElementSolutionVector" where
  "setEntry res i eq x = res[i := (res ! i)[eq := x]]"

definition addEntry :: "ElementSolutionVector \<Rightarrow> nat \<Rightarrow> nat \<Rightarrow> Scalar \<Rightarrow> ElementSolutionVector" where
  "addEntry res i eq x = setEntry res i eq (res ! i ! eq + x)"

definition subEntry :: "ElementSolutionVector \<Rightarrow> nat \<Rightarrow> nat \<Rightarrow> Scalar \<Rightarrow> ElementSolutionVector" where
  "subEntry res i eq x = setEntry res i eq (res ! i ! eq - x)"

text \<open>
  An index outside the residual is undefined behaviour in the source. The theorems below
  are stated for residuals of the shape that \<^verbatim>\<open>resize\<close> produces and for geometries whose
  faces name existing sub-control volumes.
\<close>

definition shaped :: "nat \<Rightarrow> nat \<Rightarrow> ElementSolutionVector \<Rightarrow> bool" where
  "shaped nv ne res = (length res = nv \<and> list_all (\<lambda>r. length r = ne) res)"

definition facesInRange :: "FVElementGeometry \<Rightarrow> bool" where
  "facesInRange fv =
     (numEdges fv \<le> length (subContVolFace fv) \<and>
      list_all (\<lambda>k. scvf_i (subContVolFace fv ! k) < numVertices fv \<and>
                     scvf_j (subContVolFace fv ! k) < numVertices fv) [0..<numEdges fv])"

subsection \<open>The passes\<close>

definition fluxFace :: "('p, 'e, 'v) TypeTag \<Rightarrow> ('p, 'e, 'v) Context \<Rightarrow> nat \<Rightarrow>
    ElementSolutionVector \<Rightarrow> ElementSolutionVector" where
  "fluxFace T ctx k res =
     (let i = scvf_i (subContVolFace (fvElemGeomPtr ctx) ! k);
          j = scvf_j (subContVolFace (fvElemGeomPtr ctx) ! k);
          flux = computeFlux T ctx k
      in fold (\<lambda>eq r. addEntry (subEntry r i eq (flux ! eq)) j eq (flux ! eq))
           [0..<numEq T] res)"

definition evalFluxes' :: "('p, 'e, 'v) TypeTag \<Rightarrow> ('p, 'e, 'v) Context \<Rightarrow>
    ElementSolutionVector \<Rightarrow> ElementSolutionVector" where
  "evalFluxes' T ctx res = fold (fluxFace T ctx) [0..<numEdges (fvElemGeomPtr ctx)] res"

definition storageVertex :: "('p, 'e, 'v) TypeTag \<Rightarrow> ('p, 'e, 'v) Context \<Rightarrow> nat \<Rightarrow>
    ElementSolutionVector \<Rightarrow> ElementSolutionVector" where
  "storageVertex T ctx i res =
     (let r0 = res[i := fv_const (numEq T) 0];
          r1 = r0[i := computeStorage T ctx i False]
      in r1[i := fv_scale (numEq T) (r1 ! i) (volume (subContVol (fvElemGeomPtr ctx) ! i))])"

definition evalStorage' :: "('p, 'e, 'v) TypeTag \<Rightarrow> ('p, 'e, 'v) Context \<Rightarrow>
    ElementSolutionVector \<Rightarrow> ElementSolutionVector" where
  "evalStorage' T ctx res = fold (storageVertex T ctx) [0..<numVertices (fvElemGeomPtr ctx)] res"

definition volumeTermsVertex :: "('p, 'e, 'v) TypeTag \<Rightarrow> ('p, 'e, 'v) Context \<Rightarrow> nat \<Rightarrow>
    ElementSolutionVector \<Rightarrow> ElementSolutionVector" where
  "volumeTermsVertex T ctx i res =
     (let n = numEq T;
          vol = volume (subContVol (fvElemGeomPtr ctx) ! i);
          massContrib = computeStorage T ctx i False;
          tmp = computeStorage T ctx i True;
          massContrib = fv_sub n massContrib tmp;
          massContrib = fv_scale n massContrib (vol / timeStepSize T (problemPtr ctx));
          res = fold (\<lambda>j r. addEntry r i j (massContrib ! j)) [0..<n] res;
          source = computeSource T ctx i;
          source = fv_scale n source vol
      in fold (\<lambda>j r. subEntry r i j (source ! j)) [0..<n] res)"

definition evalVolumeTerms' :: "('p, 'e, 'v) TypeTag \<Rightarrow> ('p, 'e, 'v) Context \<Rightarrow>
    ElementSolutionVector \<Rightarrow> ElementSolutionVector" where
  "evalVolumeTerms' T ctx res =
     fold (volumeTermsVertex T ctx) [0..<numVertices (fvElemGeomPtr ctx)] res"

definition evalNeumannSegment' :: "('p, 'e, 'v) TypeTag \<Rightarrow> ('p, 'e, 'v) Context \<Rightarrow>
    BoxIntersection \<Rightarrow> nat \<Rightarrow> nat \<Rightarrow> ElementSolutionVector \<Rightarrow> ElementSolutionVector" where
  "evalNeumannSegment' T ctx isIt scvIdx boundaryFaceIdx res =
     (let n = numEq T;
          values = fv_const n 0;
          bcTypes = bcTypesPtr ctx ! scvIdx
      in if hasNeumann n bcTypes
         then (let values = neumann T (problemPtr ctx) (elemPtr ctx) (fvElemGeomPtr ctx)
                              isIt scvIdx boundaryFaceIdx;
                   values = fv_scale n values
                              (area (boundaryFace (fvElemGeomPtr ctx) ! boundaryFaceIdx))
               in res[scvIdx := fv_add n (res ! scvIdx) values])
         else res)"

definition neumannFace :: "('p, 'e, 'v) TypeTag \<Rightarrow> ('p, 'e, 'v) Context \<Rightarrow>
    BoxIntersection \<Rightarrow> ElementSolutionVector \<Rightarrow> ElementSolutionVector" where
  "neumannFace T ctx isIt res =
     (if \<not> boundary isIt then res
      else (let faceIdx = indexInInside isIt;
                numFaceVerts = refElemSize T (elemPtr ctx) faceIdx
            in fold (\<lambda>faceVertIdx r.
                       evalNeumannSegment' T ctx isIt
                         (refElemSubEntity T (elemPtr ctx) faceIdx faceVertIdx)
                         (boundaryFaceIndex (fvElemGeomPtr ctx) faceIdx faceVertIdx) r)
                 [0..<numFaceVerts] res))"

definition evalNeumann' :: "('p, 'e, 'v) TypeTag \<Rightarrow> ('p, 'e, 'v) Context \<Rightarrow>
    ElementSolutionVector \<Rightarrow> ElementSolutionVector" where
  "evalNeumann' T ctx res =
     fold (neumannFace T ctx) (intersections T (problemPtr ctx) (elemPtr ctx)) res"

definition dirichletVertex :: "('p, 'e, 'v) TypeTag \<Rightarrow> ('p, 'e, 'v) Context \<Rightarrow> nat \<Rightarrow>
    ElementSolutionVector \<Rightarrow> ElementSolutionVector" where
  "dirichletVertex T ctx i res =
     (let bcTypes = bcTypesPtr ctx ! i
      in if \<not> hasDirichlet (numEq T) bcTypes then res
         else (let tmp = dirichlet T (problemPtr ctx) (elemPtr ctx) i
               in fold (\<lambda>eqIdx r.
                          if \<not> isDirichlet bcTypes eqIdx then r
                          else (let pvIdx = eqToDirichletIndex bcTypes eqIdx
                                in setEntry r i eqIdx
                                     (primaryVars T (curVolVarsPtr ctx ! i) ! pvIdx - tmp ! pvIdx)))
                    [0..<numEq T] res))"

definition evalDirichlet' :: "('p, 'e, 'v) TypeTag \<Rightarrow> ('p, 'e, 'v) Context \<Rightarrow>
    ElementSolutionVector \<Rightarrow> ElementSolutionVector" where
  "evalDirichlet' T ctx res =
     fold (dirichletVertex T ctx) [0..<numVertices (fvElemGeomPtr ctx)] res"

subsection \<open>The entry points\<close>

definition resetResidual :: "nat \<Rightarrow> nat \<Rightarrow> ElementSolutionVector" where
  "resetResidual numVerts n = replicate numVerts (fv_const n 0)"

definition eval :: "('p, 'e, 'v) TypeTag \<Rightarrow> ('p, 'e, 'v) BoxLocalResidual \<Rightarrow> 'e \<Rightarrow>
    FVElementGeometry \<Rightarrow> 'v list \<Rightarrow> 'v list \<Rightarrow> ElementBoundaryTypes \<Rightarrow>
    ('p, 'e, 'v) BoxLocalResidual" where
  "eval T this element fvGeom prevVolVars curVolVars bcTypes =
     (let ctx = (callContext this)\<lparr>elemPtr := element, fvElemGeomPtr := fvGeom,
                  bcTypesPtr := bcTypes, prevVolVarsPtr := Some prevVolVars,
                  curVolVarsPtr := curVolVars\<rparr>;
          numVerts = numVertices fvGeom;
          res = resetResidual numVerts (numEq T);
          res = evalFluxes' T ctx res;
          res = evalVolumeTerms' T ctx res;
          res = (if elemHasNeumann (numEq T) bcTypes then evalNeumann' T ctx res else res);
          res = (if elemHasDirichlet (numEq T) bcTypes then evalDirichlet' T ctx res else res)
      in \<lparr>callContext = ctx, residual = res\<rparr>)"

definition evalElement :: "('p, 'e, 'v) TypeTag \<Rightarrow> ('p, 'e, 'v) BoxLocalResidual \<Rightarrow> 'e \<Rightarrow>
    ('p, 'e, 'v) BoxLocalResidual" where
  "evalElement T this element =
     (let p = problemPtr (callContext this);
          fvGeom = fvGeomUpdate T p element;
          volVarsPrev = volVarsUpdate T p element fvGeom True;
          volVarsCur = volVarsUpdate T p element fvGeom False;
          bcTypes = bcTypesUpdate T p element fvGeom;
          p = updateCouplingParams T p element;
          this = this\<lparr>callContext := (callContext this)\<lparr>problemPtr := p\<rparr>\<rparr>
      in eval T this element fvGeom volVarsPrev volVarsCur bcTypes)"

definition evalStorage :: "('p, 'e, 'v) TypeTag \<Rightarrow> ('p, 'e, 'v) BoxLocalResidual \<Rightarrow> 'e \<Rightarrow>
    ('p, 'e, 'v) BoxLocalResidual" where
  "evalStorage T this element =
     (let p = problemPtr (callContext this);
          fvGeom = fvGeomUpdate T p element;
          bcTypes = bcTypesUpdate T p element fvGeom;
          volVars = volVarsUpdate T p element fvGeom False;
          res = resetResidual (numVertices fvGeom) (numEq T);
          ctx = (callContext this)\<lparr>elemPtr := element, fvElemGeomPtr := fvGeom,
                  bcTypesPtr := bcTypes, prevVolVarsPtr := None,
                  curVolVarsPtr := volVars\<rparr>
      in \<lparr>callContext = ctx, residual = evalStorage' T ctx res\<rparr>)"

definition evalFluxes :: "('p, 'e, 'v) TypeTag \<Rightarrow> ('p, 'e, 'v) BoxLocalResidual \<Rightarrow> 'e \<Rightarrow>
    'v list \<Rightarrow> ('p, 'e, 'v) BoxLocalResidual" where
  "evalFluxes T this element curVolVars =
     (let p = problemPtr (callContext this);
          fvGeom = fvGeomUpdate T p element;
          bcTypes = bcTypesUpdate T p element fvGeom;
          res = resetResidual (numVertices fvGeom) (numEq T);
          ctx = (callContext this)\<lparr>elemPtr := element, fvElemGeomPtr := fvGeom,
                  bcTypesPtr := bcTypes, prevVolVarsPtr := None,
                  curVolVarsPtr := curVolVars\<rparr>
      in \<lparr>callContext = ctx, residual = evalFluxes' T ctx res\<rparr>)"

subsection \<open>Specification functions\<close>

text \<open>
  What one sub-control volume receives from the volume terms, and the value the Dirichlet
  pass writes, written as closed expressions; the theorems compare the passes with them.
\<close>

definition volumeContribution :: "('p, 'e, 'v) TypeTag \<Rightarrow> ('p, 'e, 'v) Context \<Rightarrow> nat \<Rightarrow> nat \<Rightarrow> Scalar" where
  "volumeContribution T ctx i e =
     (computeStorage T ctx i False ! e - computeStorage T ctx i True ! e)
        * (volume (subContVol (fvElemGeomPtr ctx) ! i) / timeStepSize T (problemPtr ctx))
     - computeSource T ctx i ! e * volume (subContVol (fvElemGeomPtr ctx) ! i)"

definition dirichletValue :: "('p, 'e, 'v) TypeTag \<Rightarrow> ('p, 'e, 'v) Context \<Rightarrow> nat \<Rightarrow> nat \<Rightarrow> Scalar" where
  "dirichletValue T ctx i eqIdx =
     (let pvIdx = eqToDirichletIndex (bcTypesPtr ctx ! i) eqIdx
      in primaryVars T (curVolVarsPtr ctx ! i) ! pvIdx
           - dirichlet T (problemPtr ctx) (elemPtr ctx) i ! pvIdx)"

subsection \<open>A small element for the concrete checks\<close>

text \<open>
  Two sub-control volumes joined by one face, two equations; the first sub-control volume
  lies on the boundary with a Neumann condition for equation 0 and a Dirichlet condition
  for equation 1. The problem counts the calls of its coupling hook.
\<close>

definition exGeom :: FVElementGeometry where
  "exGeom = \<lparr>numVertices = 2, numEdges = 1,
     subContVol = [\<lparr>volume = 2\<rparr>, \<lparr>volume = 4\<rparr>],
     subContVolFace = [\<lparr>scvf_i = 0, scvf_j = 1\<rparr>],
     boundaryFace = [\<lparr>area = 3\<rparr>],
     boundaryFaceIndex = (\<lambda>faceIdx faceVertIdx. 0)\<rparr>"

definition exBcTypes :: ElementBoundaryTypes where
  "exBcTypes =
     [\<lparr>boundaryInfo = (\<lambda>eqIdx. if eqIdx = 0 then BCNeumann else BCDirichlet),
       eqToDirichletIndex = (\<lambda>eqIdx. eqIdx)\<rparr>,
      \<lparr>boundaryInfo = (\<lambda>eqIdx. BCNone), eqToDirichletIndex = (\<lambda>eqIdx. eqIdx)\<rparr>]"

definition exTypeTag :: "(nat, nat, PrimaryVariables) TypeTag" where
  "exTypeTag = \<lparr>numEq = 2,
     computeFlux = (\<lambda>ctx k. [5, 7]),
     computeStorage = (\<lambda>ctx i usePrevSol. if usePrevSol then [1, 1] else [3, 4]),
     computeSource = (\<lambda>ctx i. [1, 2]),
     primaryVars = (\<lambda>v. v),
     dirichlet = (\<lambda>p e i. [10, 20]),
     neumann = (\<lambda>p e fv isIt scvIdx boundaryFaceIdx. [1, 2]),
     timeStepSize = (\<lambda>p. 2),
     updateCouplingParams = (\<lambda>p e. Suc p),
     intersections = (\<lambda>p e. [\<lparr>boundary = True, indexInInside = 0\<rparr>]),
     refElemSize = (\<lambda>e faceIdx. 1),
     refElemSubEntity = (\<lambda>e faceIdx faceVertIdx. 0),
     fvGeomUpdate = (\<lambda>p e. exGeom),
     volVarsUpdate = (\<lambda>p e fv oldSol. if oldSol then [[0, 0], [0, 0]] else [[11, 22], [33, 44]]),
     bcTypesUpdate = (\<lambda>p e fv. exBcTypes)\<rparr>"

definition exContext :: "(nat, nat, PrimaryVariables) Context" where
  "exContext = \<lparr>problemPtr = 0, elemPtr = 0, fvElemGeomPtr = exGeom,
     prevVolVarsPtr = Some [[0, 0], [0, 0]], curVolVarsPtr = [[11, 22], [33, 44]],
     bcTypesPtr = exBcTypes\<rparr>"

definition exThis :: "(nat, nat, PrimaryVariables) BoxLocalResidual" where
  "exThis = \<lparr>callContext = exContext, residual = []\<rparr>"

text \<open>
  A triangle: three sub-control volumes, three faces running round it, and a flux that
  differs from face to face.
\<close>

definition exTriangle :: FVElementGeometry where
  "exTriangle = \<lparr>numVertices = 3, numEdges = 3,
     subContVol = [\<lparr>volume = 1\<rparr>, \<lparr>volume = 1\<rparr>, \<lparr>volume = 1\<rparr>],
     subContVolFace = [\<lparr>scvf_i = 0, scvf_j = 1\<rparr>, \<lparr>scvf_i = 1, scvf_j = 2\<rparr>,
                       \<lparr>scvf_i = 2, scvf_j = 0\<rparr>],
     boundaryFace = [],
     boundaryFaceIndex = (\<lambda>faceIdx faceVertIdx. 0)\<rparr>"

definition exTriangleTag :: "(nat, nat, PrimaryVariables) TypeTag" where
  "exTriangleTag = exTypeTag\<lparr>computeFlux :=
     (\<lambda>ctx k. if k = 0 then [1, 10] else if k = 1 then [2, 20] else [3, 30])\<rparr>"

definition exTriangleContext :: "(nat, nat, PrimaryVariables) Context" where
  "exTriangleContext = exContext\<lparr>fvElemGeomPtr := exTriangle\<rparr>"


section \<open>The MPFA-O velocity computation\<close>

subsection \<open>Small dense matrices\<close>

text \<open>
  \<^verbatim>\<open>Dune::FieldMatrix\<close> belongs to the Dune library, not to this repository. Its operations
  are written here as the library documents them: \<^verbatim>\<open>M.umv(x, y)\<close> adds \<open>M x\<close> to \<open>y\<close>,
  \<^verbatim>\<open>X.rightmultiply(M)\<close> replaces \<open>X\<close> by \<open>X M\<close>, \<^verbatim>\<open>X.leftmultiply(M)\<close> replaces \<open>X\<close>
  by \<open>M X\<close>, and \<^verbatim>\<open>A.invert()\<close> replaces \<open>A\<close> by its inverse and throws
  \<^verbatim>\<open>FMatrixError\<close> for a singular matrix. A matrix is the list of its rows.
\<close>

type_synonym FieldMatrix = "Scalar list list"

datatype Error = NotImplemented | FMatrixError

definition fm_const :: "nat \<Rightarrow> nat \<Rightarrow> Scalar \<Rightarrow> FieldMatrix" where
  "fm_const r c x = replicate r (replicate c x)"

definition fm_add :: "nat \<Rightarrow> nat \<Rightarrow> FieldMatrix \<Rightarrow> FieldMatrix \<Rightarrow> FieldMatrix" where
  "fm_add r c X Y = map (\<lambda>i. map (\<lambda>j. X ! i ! j + Y ! i ! j) [0..<c]) [0..<r]"

definition umv :: "nat \<Rightarrow> nat \<Rightarrow> FieldMatrix \<Rightarrow> FieldVector \<Rightarrow> FieldVector \<Rightarrow> FieldVector" where
  "umv r c M x y = map (\<lambda>i. y ! i + sum_list (map (\<lambda>j. M ! i ! j * x ! j) [0..<c])) [0..<r]"

definition rightmultiply :: "nat \<Rightarrow> FieldMatrix \<Rightarrow> FieldMatrix \<Rightarrow> FieldMatrix" where
  "rightmultiply n X M =
     map (\<lambda>i. map (\<lambda>j. sum_list (map (\<lambda>k. X ! i ! k * M ! k ! j) [0..<n])) [0..<n]) [0..<n]"

definition leftmultiply :: "nat \<Rightarrow> FieldMatrix \<Rightarrow> FieldMatrix \<Rightarrow> FieldMatrix" where
  "leftmultiply n X M =
     map (\<lambda>i. map (\<lambda>j. sum_list (map (\<lambda>k. M ! i ! k * X ! k ! j) [0..<n])) [0..<n]) [0..<n]"

definition dropCol :: "nat \<Rightarrow> Scalar list \<Rightarrow> Scalar list" where
  "dropCol j r = take j r @ drop (Suc j) r"

function det :: "FieldMatrix \<Rightarrow> Scalar" where
  "det [] = 1"
| "det (r # rs) =
     sum_list (map (\<lambda>j. (- 1) ^ j * r ! j * det (map (dropCol j) rs)) [0..<length r])"
  by pat_completeness auto
termination
  by (relation "measure length") auto

definition minor :: "FieldMatrix \<Rightarrow> nat \<Rightarrow> nat \<Rightarrow> FieldMatrix" where
  "minor A i j = map (dropCol j) (take i A @ drop (Suc i) A)"

definition invert :: "nat \<Rightarrow> FieldMatrix \<Rightarrow> FieldMatrix option" where
  "invert n A =
     (if det A = 0 then None
      else Some (map (\<lambda>i. map (\<lambda>j. (- 1) ^ (i + j) * det (minor A j i) / det A) [0..<n]) [0..<n]))"

text \<open>The matrix product and the unit matrix, for stating what the operations compute.\<close>

definition mmult :: "nat \<Rightarrow> FieldMatrix \<Rightarrow> FieldMatrix \<Rightarrow> FieldMatrix" where
  "mmult n X Y =
     map (\<lambda>i. map (\<lambda>j. sum_list (map (\<lambda>k. X ! i ! k * Y ! k ! j) [0..<n])) [0..<n]) [0..<n]"

definition munit :: "nat \<Rightarrow> FieldMatrix" where
  "munit n = map (\<lambda>i. map (\<lambda>j. if i = j then 1 else 0) [0..<n]) [0..<n]"

subsection \<open>Grid, problem and variables\<close>

record Intersection = BoxIntersection +
  neighbor :: bool
  inside :: nat
  outside :: nat
  geometry_center :: FieldVector
  geometry_volume :: Scalar
  geometry_corners :: "FieldVector list"
  centerUnitOuterNormal :: FieldVector

record Element =
  elem_center :: FieldVector
  elem_volume :: Scalar
  elem_intersections :: "Intersection list"

record Variables =
  pressure :: "Scalar list"
  mobilityWetting :: "Scalar list"
  mobilityNonwetting :: "Scalar list"
  velocity :: "FieldVector list list"
  potentialWetting :: "Scalar list list"
  potentialNonwetting :: "Scalar list list"

text \<open>
  A cell is identified with its global index, its position in the grid view. The problem
  is read only; what the computation changes are the variables and the standard output.
\<close>

record Problem =
  gridView :: "Element list"
  intrinsicPermeability :: "nat \<Rightarrow> FieldMatrix"
  source :: "nat \<Rightarrow> PrimaryVariables"

datatype LogLine = NotConservative Scalar nat "Scalar list"

record VelocityState =
  variables :: Variables
  cout :: "LogLine list"

text \<open>
  How a part of the computation ends: normally, with an exception and the state it
  leaves, or with floating-point values that are no real numbers. The last is what a
  division by zero gives in the code: no exception is raised and the code goes on with
  infinities or NaN. Such values are outside a model over the reals, which stops there
  and keeps the state reached.
\<close>

datatype 'a Result = Ok 'a | Throw Error VelocityState | NonFinite VelocityState

text \<open>
  The compile-time properties: the dimension, the grid implementation with the three
  indices of \<^verbatim>\<open>GridTypeIndices\<close> that the code names, the velocity formulation with the
  index \<^verbatim>\<open>vt\<close>, and the phase indices.
\<close>

record MpfaTypeTag =
  dimension :: nat
  gridImplementation :: nat
  sGrid :: nat
  yaspGrid :: nat
  ugGrid :: nat
  velocityFormulation :: nat
  vt :: nat
  wPhaseIdx :: nat
  nPhaseIdx :: nat

subsection \<open>Pairing the half edges\<close>

text \<open>
  Intersection iterators are positions in the list of intersections of the cell:
  \<open>isItBegin\<close> is 0 and \<open>isItEnd\<close> the length of the list.
\<close>

definition getNextisIt :: "MpfaTypeTag \<Rightarrow> nat \<Rightarrow> nat \<Rightarrow> Error + nat" where
  "getNextisIt T isItEnd isIt =
     (let nextisIt = Suc isIt
      in if gridImplementation T = sGrid T then
           (if nextisIt = isItEnd then Inr 0
            else (let nextisIt = Suc (Suc isIt)
                  in if nextisIt = isItEnd then Inr (Suc 0) else Inr nextisIt))
         else if gridImplementation T = yaspGrid T then
           (if nextisIt = isItEnd then Inr 0
            else (let nextisIt = Suc (Suc isIt)
                  in if nextisIt = isItEnd then Inr (Suc 0) else Inr nextisIt))
         else if gridImplementation T = ugGrid T then
           (if nextisIt = isItEnd then Inr 0 else Inr nextisIt)
         else Inl NotImplemented)"

definition rotationR :: "nat \<Rightarrow> FieldMatrix" where
  "rotationR d =
     (let R = fm_const d d 0
      in if d = 2 then setEntry (setEntry R 0 1 1) 1 0 (- 1) else R)"

definition findCorner1234 :: "nat \<Rightarrow> Intersection \<Rightarrow> Intersection \<Rightarrow> FieldVector" where
  "findCorner1234 d isIt nextisIt =
     fold (\<lambda>isItcorner corner1234.
             fold (\<lambda>nextisItcorner corner1234.
                     if nextisItcorner = isItcorner then isItcorner else corner1234)
               (geometry_corners nextisIt) corner1234)
       (geometry_corners isIt) (fv_const d 0)"

subsection \<open>The interior interaction region of four cells\<close>

record Cell4 =
  globalPos4 :: FieldVector
  K4 :: FieldMatrix
  lambda4 :: Scalar
  globalIdx4 :: nat

definition findCell4 :: "nat \<Rightarrow> Problem \<Rightarrow> Variables \<Rightarrow> Intersection \<Rightarrow> nat \<Rightarrow> nat \<Rightarrow> Cell4" where
  "findCell4 d p vars isIt outsideIdx nextisItoutside =
     fold (\<lambda>innerisIt c4.
             fold (\<lambda>innernextisIt c4.
                     if neighbor innerisIt \<and> neighbor innernextisIt then
                       (let innerisItoutside = outside innerisIt;
                            innernextisItoutside = outside innernextisIt
                        in if innerisItoutside = innernextisItoutside
                              \<and> innerisItoutside \<noteq> inside isIt
                           then \<lparr>globalPos4 = elem_center (gridView p ! innerisItoutside),
                                 K4 = fm_add d d (K4 c4) (intrinsicPermeability p innerisItoutside),
                                 lambda4 = mobilityWetting vars ! innerisItoutside
                                             + mobilityNonwetting vars ! innerisItoutside,
                                 globalIdx4 = innerisItoutside\<rparr>
                           else c4)
                     else c4)
               (elem_intersections (gridView p ! nextisItoutside)) c4)
       (elem_intersections (gridView p ! outsideIdx))
       \<lparr>globalPos4 = fv_const d 0, K4 = fm_const d d 0, lambda4 = 0, globalIdx4 = 0\<rparr>"

text \<open>
  The face of cell \<open>cellIdx\<close> (cell 2 for \<open>isIt24\<close>, cell 3 for \<open>isIt34\<close>) that touches
  the corner and does not lead back to cell 1; the first intersection of the cell if the
  search finds none.
\<close>

definition findInnerFace :: "Problem \<Rightarrow> Intersection \<Rightarrow> nat \<Rightarrow> FieldVector \<Rightarrow> Intersection" where
  "findInnerFace p isIt cellIdx corner1234 =
     (let ints = elem_intersections (gridView p ! cellIdx)
      in fold (\<lambda>innerisIt found.
                 if neighbor innerisIt then
                   (if outside innerisIt \<noteq> inside isIt then
                      fold (\<lambda>innerisItcorner found.
                              if innerisItcorner = corner1234 then innerisIt else found)
                        (geometry_corners innerisIt) found
                    else found)
                 else found)
           ints (ints ! 0))"

record Region4 =
  press1 :: Scalar
  press2 :: Scalar
  press3 :: Scalar
  press4 :: Scalar
  globalPos1 :: FieldVector
  globalPos2 :: FieldVector
  globalPos3 :: FieldVector
  K1 :: FieldMatrix
  K2 :: FieldMatrix
  K3 :: FieldMatrix
  lambda1 :: Scalar
  lambda2 :: Scalar
  lambda3 :: Scalar
  cell4 :: Cell4
  globalPosFace12 :: FieldVector
  globalPosFace13 :: FieldVector
  globalPosFace24 :: FieldVector
  globalPosFace34 :: FieldVector
  face12vol :: Scalar
  face13vol :: Scalar
  integrationOuterNormaln1 :: FieldVector
  integrationOuterNormaln2 :: FieldVector
  integrationOuterNormaln3 :: FieldVector
  integrationOuterNormaln4 :: FieldVector
  unitOuterNormaln1 :: FieldVector
  unitOuterNormaln3 :: FieldVector

definition gatherRegion4 :: "nat \<Rightarrow> Problem \<Rightarrow> Variables \<Rightarrow> nat \<Rightarrow> Intersection \<Rightarrow> Intersection \<Rightarrow> Region4" where
  "gatherRegion4 d p vars globalIdx1 isIt nextisIt =
     (let corner1234 = findCorner1234 d isIt nextisIt;
          globalIdx2 = outside isIt;
          globalIdx3 = outside nextisIt;
          c4 = findCell4 d p vars isIt globalIdx2 globalIdx3;
          isIt24 = findInnerFace p isIt globalIdx2 corner1234;
          isIt34 = findInnerFace p isIt globalIdx3 corner1234
      in \<lparr>press1 = pressure vars ! globalIdx1,
          press2 = pressure vars ! globalIdx2,
          press3 = pressure vars ! globalIdx3,
          press4 = pressure vars ! globalIdx4 c4,
          globalPos1 = elem_center (gridView p ! globalIdx1),
          globalPos2 = elem_center (gridView p ! globalIdx2),
          globalPos3 = elem_center (gridView p ! globalIdx3),
          K1 = intrinsicPermeability p globalIdx1,
          K2 = intrinsicPermeability p globalIdx2,
          K3 = intrinsicPermeability p globalIdx3,
          lambda1 = mobilityWetting vars ! globalIdx1 + mobilityNonwetting vars ! globalIdx1,
          lambda2 = mobilityWetting vars ! globalIdx2 + mobilityNonwetting vars ! globalIdx2,
          lambda3 = mobilityWetting vars ! globalIdx3 + mobilityNonwetting vars ! globalIdx3,
          cell4 = c4,
          globalPosFace12 = geometry_center isIt,
          globalPosFace13 = geometry_center nextisIt,
          globalPosFace24 = geometry_center isIt24,
          globalPosFace34 = geometry_center isIt34,
          face12vol = geometry_volume isIt,
          face13vol = geometry_volume nextisIt,
          integrationOuterNormaln1 =
            fv_scale d (centerUnitOuterNormal isIt) (geometry_volume isIt / 2),
          integrationOuterNormaln2 =
            fv_scale d (centerUnitOuterNormal isIt34) (geometry_volume isIt34 / 2),
          integrationOuterNormaln3 =
            fv_scale d (centerUnitOuterNormal nextisIt) (geometry_volume nextisIt / 2),
          integrationOuterNormaln4 =
            fv_scale d (centerUnitOuterNormal isIt24) (geometry_volume isIt24 / 2),
          unitOuterNormaln1 = centerUnitOuterNormal isIt,
          unitOuterNormaln3 = centerUnitOuterNormal nextisIt\<rparr>)"

record FluxCoefficients =
  g111 :: Scalar
  g121 :: Scalar
  g211 :: Scalar
  g221 :: Scalar
  g112 :: Scalar
  g122 :: Scalar
  g212 :: Scalar
  g222 :: Scalar
  g113 :: Scalar
  g123 :: Scalar
  g213 :: Scalar
  g223 :: Scalar
  g114 :: Scalar
  g124 :: Scalar
  g214 :: Scalar
  g224 :: Scalar

text \<open>
  The flux coefficients divide by the areas \<open>dF1\<close>, ..., \<open>dF4\<close>. If one of them is zero
  the code's coefficients are not finite, and the model returns \<open>None\<close>. The region
  divides later by the areas of the two faces of cell 1, which are positive in a grid.
\<close>

definition fluxCoefficients :: "nat \<Rightarrow> Region4 \<Rightarrow> FluxCoefficients option" where
  "fluxCoefficients d reg =
     (let R = rotationR d;
          zero = fv_const d 0;
          nu11 = umv d d R (fv_sub d (globalPosFace13 reg) (globalPos1 reg)) zero;
          nu21 = umv d d R (fv_sub d (globalPos1 reg) (globalPosFace12 reg)) zero;
          nu12 = umv d d R (fv_sub d (globalPosFace24 reg) (globalPos2 reg)) zero;
          nu22 = umv d d R (fv_sub d (globalPosFace12 reg) (globalPos2 reg)) zero;
          nu13 = umv d d R (fv_sub d (globalPos3 reg) (globalPosFace13 reg)) zero;
          nu23 = umv d d R (fv_sub d (globalPos3 reg) (globalPosFace34 reg)) zero;
          nu14 = umv d d R (fv_sub d (globalPos4 (cell4 reg)) (globalPosFace24 reg)) zero;
          nu24 = umv d d R (fv_sub d (globalPosFace34 reg) (globalPos4 (cell4 reg))) zero;
          Rnu21 = umv d d R nu21 zero;
          dF1 = \<bar>fv_dot d nu11 Rnu21\<bar>;
          Rnu22 = umv d d R nu22 zero;
          dF2 = \<bar>fv_dot d nu12 Rnu22\<bar>;
          Rnu23 = umv d d R nu23 zero;
          dF3 = \<bar>fv_dot d nu13 Rnu23\<bar>;
          Rnu24 = umv d d R nu24 zero;
          dF4 = \<bar>fv_dot d nu14 Rnu24\<bar>;
          K1nu11 = umv d d (K1 reg) nu11 zero;
          K1nu21 = umv d d (K1 reg) nu21 zero;
          K2nu12 = umv d d (K2 reg) nu12 zero;
          K2nu22 = umv d d (K2 reg) nu22 zero;
          K3nu13 = umv d d (K3 reg) nu13 zero;
          K3nu23 = umv d d (K3 reg) nu23 zero;
          K4nu14 = umv d d (K4 (cell4 reg)) nu14 zero;
          K4nu24 = umv d d (K4 (cell4 reg)) nu24 zero
      in if dF1 = 0 \<or> dF2 = 0 \<or> dF3 = 0 \<or> dF4 = 0 then None else Some
         \<lparr>g111 = lambda1 reg * fv_dot d (integrationOuterNormaln1 reg) K1nu11 / dF1,
          g121 = lambda1 reg * fv_dot d (integrationOuterNormaln1 reg) K1nu21 / dF1,
          g211 = lambda1 reg * fv_dot d (integrationOuterNormaln3 reg) K1nu11 / dF1,
          g221 = lambda1 reg * fv_dot d (integrationOuterNormaln3 reg) K1nu21 / dF1,
          g112 = lambda2 reg * fv_dot d (integrationOuterNormaln1 reg) K2nu12 / dF2,
          g122 = lambda2 reg * fv_dot d (integrationOuterNormaln1 reg) K2nu22 / dF2,
          g212 = lambda2 reg * fv_dot d (integrationOuterNormaln4 reg) K2nu12 / dF2,
          g222 = lambda2 reg * fv_dot d (integrationOuterNormaln4 reg) K2nu22 / dF2,
          g113 = lambda3 reg * fv_dot d (integrationOuterNormaln2 reg) K3nu13 / dF3,
          g123 = lambda3 reg * fv_dot d (integrationOuterNormaln2 reg) K3nu23 / dF3,
          g213 = lambda3 reg * fv_dot d (integrationOuterNormaln3 reg) K3nu13 / dF3,
          g223 = lambda3 reg * fv_dot d (integrationOuterNormaln3 reg) K3nu23 / dF3,
          g114 = lambda4 (cell4 reg) * fv_dot d (integrationOuterNormaln2 reg) K4nu14 / dF4,
          g124 = lambda4 (cell4 reg) * fv_dot d (integrationOuterNormaln2 reg) K4nu24 / dF4,
          g214 = lambda4 (cell4 reg) * fv_dot d (integrationOuterNormaln4 reg) K4nu14 / dF4,
          g224 = lambda4 (cell4 reg) * fv_dot d (integrationOuterNormaln4 reg) K4nu24 / dF4\<rparr>)"

definition assign :: "FieldMatrix \<Rightarrow> (nat \<times> nat \<times> Scalar) list \<Rightarrow> FieldMatrix" where
  "assign M entries = fold (\<lambda>(i, j, x) M. setEntry M i j x) entries M"

definition matrixC :: "nat \<Rightarrow> FluxCoefficients \<Rightarrow> FieldMatrix" where
  "matrixC n g = assign (fm_const n n 0)
     [(0, 0, - g111 g), (0, 2, - g121 g), (1, 1, g114 g), (1, 3, g124 g),
      (2, 1, - g213 g), (2, 2, g223 g), (3, 0, g212 g), (3, 3, - g222 g)]"

definition matrixF :: "nat \<Rightarrow> FluxCoefficients \<Rightarrow> FieldMatrix" where
  "matrixF n g = assign (fm_const n n 0)
     [(0, 0, g111 g + g121 g), (1, 3, - g114 g - g124 g),
      (2, 2, g213 g - g223 g), (3, 1, - g212 g + g222 g)]"

definition matrixA :: "nat \<Rightarrow> FluxCoefficients \<Rightarrow> FieldMatrix" where
  "matrixA n g = assign (fm_const n n 0)
     [(0, 0, g111 g + g112 g), (0, 2, g121 g), (0, 3, - g122 g),
      (1, 1, g114 g + g113 g), (1, 2, - g123 g), (1, 3, g124 g),
      (2, 0, g211 g), (2, 1, - g213 g), (2, 2, g223 g + g221 g),
      (3, 0, - g212 g), (3, 1, g214 g), (3, 3, g222 g + g224 g)]"

definition matrixB :: "nat \<Rightarrow> FluxCoefficients \<Rightarrow> FieldMatrix" where
  "matrixB n g = assign (fm_const n n 0)
     [(0, 0, g111 g + g121 g), (0, 1, g112 g - g122 g),
      (1, 2, g113 g - g123 g), (1, 3, g114 g + g124 g),
      (2, 0, g211 g + g221 g), (2, 2, - g213 g + g223 g),
      (3, 1, - g212 g + g222 g), (3, 3, g214 g + g224 g)]"

definition transmissibility :: "nat \<Rightarrow> FluxCoefficients \<Rightarrow> Error + FieldMatrix" where
  "transmissibility n g =
     (case invert n (matrixA n g) of
        None \<Rightarrow> Inl FMatrixError
      | Some A \<Rightarrow>
          Inr (fm_add n n (matrixF n g)
                 (leftmultiply n (matrixB n g) (rightmultiply n (matrixC n g) A))))"

definition localPressure :: "nat \<Rightarrow> Region4 \<Rightarrow> FieldVector" where
  "localPressure n reg =
     (fv_const n 0)[0 := press1 reg, 1 := press2 reg, 2 := press3 reg, 3 := press4 reg]"

definition addVelocity :: "nat \<Rightarrow> VelocityState \<Rightarrow> nat \<Rightarrow> nat \<Rightarrow> FieldVector \<Rightarrow> VelocityState" where
  "addVelocity d st globalIdx face vec =
     st\<lparr>variables := (variables st)\<lparr>velocity :=
          (velocity (variables st))[globalIdx :=
             (velocity (variables st) ! globalIdx)[face :=
                fv_add d (velocity (variables st) ! globalIdx ! face) vec]]\<rparr>\<rparr>"

definition interior4 :: "MpfaTypeTag \<Rightarrow> Problem \<Rightarrow> nat \<Rightarrow> Intersection \<Rightarrow> Intersection \<Rightarrow>
    VelocityState \<Rightarrow> VelocityState Result" where
  "interior4 T p globalIdx1 isIt nextisIt st =
     (let d = dimension T;
          reg = gatherRegion4 d p (variables st) globalIdx1 isIt nextisIt
      in case fluxCoefficients d reg of
           None \<Rightarrow> NonFinite st
         | Some g \<Rightarrow>
             (case transmissibility (2 * d) g of
                Inl e \<Rightarrow> Throw e st
              | Inr Tm \<Rightarrow>
                  (let u = localPressure (2 * d) reg;
                       Tu = umv (2 * d) (2 * d) Tm u (fv_const (2 * d) 0);
                       vector1 = fv_scale d (unitOuterNormaln1 reg) (Tu ! 0 / face12vol reg);
                       st = addVelocity d st globalIdx1 (indexInInside isIt) vector1;
                       vector3 = fv_scale d (unitOuterNormaln3 reg) (Tu ! 2 / face13vol reg);
                       st = addVelocity d st globalIdx1 (indexInInside nextisIt) vector3
                   in Ok st)))"

text \<open>
  The interaction regions that touch the boundary (the other branches of the source) are
  not modelled; they enter as the parameter \<open>boundaryRegion\<close>.
\<close>

definition interactionRegion :: "MpfaTypeTag \<Rightarrow>
    (Problem \<Rightarrow> nat \<Rightarrow> Intersection \<Rightarrow> Intersection \<Rightarrow> VelocityState \<Rightarrow> VelocityState Result) \<Rightarrow>
    Problem \<Rightarrow> nat \<Rightarrow> Intersection \<Rightarrow> Intersection \<Rightarrow> VelocityState \<Rightarrow> VelocityState Result" where
  "interactionRegion T boundaryRegion p globalIdx1 isIt nextisIt st =
     (if neighbor isIt \<and> neighbor nextisIt
      then interior4 T p globalIdx1 isIt nextisIt st
      else boundaryRegion p globalIdx1 isIt nextisIt st)"

text \<open>
  The transmissibility as the specification words it, \<open>F\<close> plus the product of \<open>B\<close>
  with \<open>C A\<^sup>-\<^sup>1\<close> in that order. It is compared with \<open>transmissibility\<close>, which
  follows the code.
\<close>

definition transmissibilitySpec :: "nat \<Rightarrow> FluxCoefficients \<Rightarrow> Error + FieldMatrix" where
  "transmissibilitySpec n g =
     (case invert n (matrixA n g) of
        None \<Rightarrow> Inl FMatrixError
      | Some A \<Rightarrow>
          Inr (fm_add n n (matrixF n g) (mmult n (matrixB n g) (mmult n (matrixC n g) A))))"

subsection \<open>One cell, and the traversal of the grid\<close>

fun forEach :: "('x \<Rightarrow> 's \<Rightarrow> 's Result) \<Rightarrow> 'x list \<Rightarrow> 's \<Rightarrow> 's Result" where
  "forEach f [] s = Ok s"
| "forEach f (x # xs) s =
     (case f x s of
        Ok s' \<Rightarrow> forEach f xs s'
      | Throw e t \<Rightarrow> Throw e t
      | NonFinite t \<Rightarrow> NonFinite t)"

definition zeroVelocity :: "nat \<Rightarrow> nat \<Rightarrow> VelocityState \<Rightarrow> VelocityState" where
  "zeroVelocity d globalIdx1 st =
     fold (\<lambda>i st. st\<lparr>variables := (variables st)\<lparr>velocity :=
              (velocity (variables st))[globalIdx1 :=
                 (velocity (variables st) ! globalIdx1)[i := fv_const d 0]]\<rparr>\<rparr>)
       [0..<2 * d] st"

text \<open>
  The two local arrays that the conservation check reads. The source leaves them
  uninitialised and fills the entry of every face it visits; the model starts them at zero.
\<close>

record CellLocals =
  facevol :: "Scalar list"
  unitOuterNormal :: "FieldVector list"

definition intersectionStep :: "MpfaTypeTag \<Rightarrow>
    (Problem \<Rightarrow> nat \<Rightarrow> Intersection \<Rightarrow> Intersection \<Rightarrow> VelocityState \<Rightarrow> VelocityState Result) \<Rightarrow>
    Problem \<Rightarrow> nat \<Rightarrow> nat \<Rightarrow> VelocityState \<times> CellLocals \<Rightarrow> (VelocityState \<times> CellLocals) Result" where
  "intersectionStep T boundaryRegion p globalIdx1 isIt s =
     (let ints = elem_intersections (gridView p ! globalIdx1)
      in case getNextisIt T (length ints) isIt of
           Inl e \<Rightarrow> Throw e (fst s)
         | Inr nextisIt \<Rightarrow>
             (let loc = (snd s)\<lparr>
                    facevol := (facevol (snd s))
                       [indexInInside (ints ! isIt) := geometry_volume (ints ! isIt)],
                    unitOuterNormal := (unitOuterNormal (snd s))
                       [indexInInside (ints ! isIt) := centerUnitOuterNormal (ints ! isIt)]\<rparr>
              in case interactionRegion T boundaryRegion p globalIdx1
                        (ints ! isIt) (ints ! nextisIt) (fst s) of
                   Throw e t \<Rightarrow> Throw e t
                 | NonFinite t \<Rightarrow> NonFinite t
                 | Ok st \<Rightarrow> Ok (st, loc)))"

definition setPotentials :: "nat \<Rightarrow> nat \<Rightarrow> CellLocals \<Rightarrow> VelocityState \<Rightarrow> VelocityState" where
  "setPotentials d globalIdx1 loc st =
     fold (\<lambda>i st.
             (let pot = fv_dot d (velocity (variables st) ! globalIdx1 ! i) (unitOuterNormal loc ! i);
                  st = st\<lparr>variables := (variables st)\<lparr>potentialWetting :=
                          setEntry (potentialWetting (variables st)) globalIdx1 i pot\<rparr>\<rparr>
              in st\<lparr>variables := (variables st)\<lparr>potentialNonwetting :=
                      setEntry (potentialNonwetting (variables st)) globalIdx1 i pot\<rparr>\<rparr>))
       [0..<length (velocity (variables st) ! globalIdx1)] st"

definition faceFlux :: "nat \<Rightarrow> VelocityState \<Rightarrow> nat \<Rightarrow> CellLocals \<Rightarrow> nat \<Rightarrow> Scalar" where
  "faceFlux d st globalIdx1 loc i =
     fv_dot d (velocity (variables st) ! globalIdx1 ! i) (unitOuterNormal loc ! i) * facevol loc ! i"

definition conservationCheck :: "MpfaTypeTag \<Rightarrow> nat \<Rightarrow> CellLocals \<Rightarrow> Scalar \<Rightarrow> Scalar \<Rightarrow>
    VelocityState \<Rightarrow> VelocityState" where
  "conservationCheck T globalIdx1 loc q1 volume1 st =
     (if dimension T = 2 \<and> velocityFormulation T = vt T then
        (let d = dimension T;
             diff = \<bar>faceFlux d st globalIdx1 loc 0 + faceFlux d st globalIdx1 loc 1
                      + faceFlux d st globalIdx1 loc 2 + faceFlux d st globalIdx1 loc 3
                      - q1 * volume1\<bar>
                    / (\<bar>faceFlux d st globalIdx1 loc 0\<bar> + \<bar>faceFlux d st globalIdx1 loc 1\<bar>
                       + \<bar>faceFlux d st globalIdx1 loc 2\<bar> + \<bar>faceFlux d st globalIdx1 loc 3\<bar>
                       + \<bar>q1 * volume1\<bar>)
         in if diff > 1 / 10 ^ 8
            then st\<lparr>cout := cout st @
                   [NotConservative diff globalIdx1
                      [faceFlux d st globalIdx1 loc 0, faceFlux d st globalIdx1 loc 1,
                       faceFlux d st globalIdx1 loc 2, faceFlux d st globalIdx1 loc 3]]\<rparr>
            else st)
      else st)"

definition calculateVelocityCell :: "MpfaTypeTag \<Rightarrow>
    (Problem \<Rightarrow> nat \<Rightarrow> Intersection \<Rightarrow> Intersection \<Rightarrow> VelocityState \<Rightarrow> VelocityState Result) \<Rightarrow>
    Problem \<Rightarrow> nat \<Rightarrow> VelocityState \<Rightarrow> VelocityState Result" where
  "calculateVelocityCell T boundaryRegion p globalIdx1 st =
     (let d = dimension T;
          volume1 = elem_volume (gridView p ! globalIdx1);
          q1 = source p globalIdx1 ! wPhaseIdx T + source p globalIdx1 ! nPhaseIdx T;
          st = zeroVelocity d globalIdx1 st;
          loc = \<lparr>facevol = replicate (2 * d) 0, unitOuterNormal = replicate (2 * d) (fv_const d 0)\<rparr>
      in case forEach (intersectionStep T boundaryRegion p globalIdx1)
                [0..<length (elem_intersections (gridView p ! globalIdx1))] (st, loc) of
           Throw e t \<Rightarrow> Throw e t
         | NonFinite t \<Rightarrow> NonFinite t
         | Ok s \<Rightarrow>
             Ok (conservationCheck T globalIdx1 (snd s) q1 volume1
                   (setPotentials d globalIdx1 (snd s) (fst s))))"

definition calculateVelocity :: "MpfaTypeTag \<Rightarrow>
    (Problem \<Rightarrow> nat \<Rightarrow> Intersection \<Rightarrow> Intersection \<Rightarrow> VelocityState \<Rightarrow> VelocityState Result) \<Rightarrow>
    Problem \<Rightarrow> VelocityState \<Rightarrow> VelocityState Result" where
  "calculateVelocity T boundaryRegion p st =
     forEach (calculateVelocityCell T boundaryRegion p) [0..<length (gridView p)] st"

subsection \<open>Small grids for the concrete checks\<close>

text \<open>
  Square cells of side \<open>h\<close> with the faces numbered left, right, bottom, top. A face without
  a neighbour lies on the boundary.
\<close>

definition cartesianIntersection :: "Scalar \<Rightarrow> nat \<Rightarrow> Scalar \<Rightarrow> Scalar \<Rightarrow> nat \<Rightarrow> nat option \<Rightarrow> Intersection" where
  "cartesianIntersection h insideIdx cx cy faceIdx nb =
     \<lparr>boundary = (nb = None), indexInInside = faceIdx,
      neighbor = (nb \<noteq> None), inside = insideIdx,
      outside = (case nb of None \<Rightarrow> insideIdx | Some k \<Rightarrow> k),
      geometry_center =
        [[cx - h / 2, cy], [cx + h / 2, cy], [cx, cy - h / 2], [cx, cy + h / 2]] ! faceIdx,
      geometry_volume = h,
      geometry_corners =
        [[[cx - h / 2, cy - h / 2], [cx - h / 2, cy + h / 2]],
         [[cx + h / 2, cy - h / 2], [cx + h / 2, cy + h / 2]],
         [[cx - h / 2, cy - h / 2], [cx + h / 2, cy - h / 2]],
         [[cx - h / 2, cy + h / 2], [cx + h / 2, cy + h / 2]]] ! faceIdx,
      centerUnitOuterNormal = [[- 1, 0], [1, 0], [0, - 1], [0, 1]] ! faceIdx\<rparr>"

definition cartesianCell :: "Scalar \<Rightarrow> nat \<Rightarrow> Scalar \<Rightarrow> Scalar \<Rightarrow> nat option list \<Rightarrow> Element" where
  "cartesianCell h idx cx cy nbs =
     \<lparr>elem_center = [cx, cy], elem_volume = h * h,
      elem_intersections = map (\<lambda>f. cartesianIntersection h idx cx cy f (nbs ! f)) [0..<4]\<rparr>"

text \<open>
  Four cells in a square. Then cells 1, 2 and 3 in an L around a re-entrant corner, with a
  cell 0 beyond cell 2 that touches neither cell 1 nor the corner: once with the faces of
  every cell in the order above, and once with the faces of cells 2 and 3 in another
  order, as an unstructured grid may list them.
\<close>

definition exGrid :: "Element list" where
  "exGrid =
     [cartesianCell 2 0 1 1 [None, Some 1, None, Some 2],
      cartesianCell 2 1 3 1 [Some 0, None, None, Some 3],
      cartesianCell 2 2 1 3 [None, Some 3, Some 0, None],
      cartesianCell 2 3 3 3 [Some 2, None, Some 1, None]]"




definition exProblem :: "Element list \<Rightarrow> Problem" where
  "exProblem grid = \<lparr>gridView = grid,
     intrinsicPermeability = (\<lambda>globalIdx. [[1, 0], [0, 1]]),
     source = (\<lambda>globalIdx. [0, 0])\<rparr>"

definition exState :: "Scalar list \<Rightarrow> VelocityState" where
  "exState press =
     \<lparr>variables = \<lparr>pressure = press,
        mobilityWetting = replicate (length press) 1,
        mobilityNonwetting = replicate (length press) 0,
        velocity = replicate (length press) (replicate 4 [1, 1]),
        potentialWetting = replicate (length press) (replicate 4 0),
        potentialNonwetting = replicate (length press) (replicate 4 0)\<rparr>,
      cout = []\<rparr>"

definition exMpfaTypeTag :: "nat \<Rightarrow> MpfaTypeTag" where
  "exMpfaTypeTag grid =
     \<lparr>dimension = 2, gridImplementation = grid, sGrid = 1, yaspGrid = 2, ugGrid = 3,
      velocityFormulation = 0, vt = 0, wPhaseIdx = 0, nPhaseIdx = 1\<rparr>"

definition noBoundaryRegion :: "Problem \<Rightarrow> nat \<Rightarrow> Intersection \<Rightarrow> Intersection \<Rightarrow> VelocityState \<Rightarrow> VelocityState Result" where
  "noBoundaryRegion p globalIdx1 isIt nextisIt st = Ok st"


text \<open>The matrix-vector product, for stating what \<open>umv\<close> computes from a zero vector.\<close>

definition mvmult :: "nat \<Rightarrow> FieldMatrix \<Rightarrow> FieldVector \<Rightarrow> FieldVector" where
  "mvmult n M x = map (\<lambda>i. sum_list (map (\<lambda>j. M ! i ! j * x ! j) [0..<n])) [0..<n]"

text \<open>
  The interior region around the centre of the four-cell grid and its flux coefficients,
  as the code gathers them, written out.
\<close>

definition exRegion :: Region4 where
  "exRegion = \<lparr>press1 = 1, press2 = 2, press3 = 3, press4 = 4, globalPos1 = [1, 1],
    globalPos2 = [3, 1], globalPos3 = [1, 3], K1 = [[1, 0], [0, 1]],
    K2 = [[1, 0], [0, 1]], K3 = [[1, 0], [0, 1]], lambda1 = 1, lambda2 = 1,
    lambda3 = 1,
    cell4 =
      \<lparr>globalPos4 = [3, 3], K4 = [[1, 0], [0, 1]], lambda4 = 1,
         globalIdx4 = 3\<rparr>,
    globalPosFace12 = [2, 1], globalPosFace13 = [1, 2],
    globalPosFace24 = [3, 2], globalPosFace34 = [2, 3], face12vol = 2,
    face13vol = 2, integrationOuterNormaln1 = [1, 0],
    integrationOuterNormaln2 = [1, 0], integrationOuterNormaln3 = [0, 1],
    integrationOuterNormaln4 = [0, 1], unitOuterNormaln1 = [1, 0],
    unitOuterNormaln3 = [0, 1]\<rparr>"

definition exCoefficients :: FluxCoefficients where
  "exCoefficients = \<lparr>g111 = 1, g121 = 0, g211 = 0, g221 = 1, g112 = 1, g122 = 0, g212 = 0, g222 = 1,
     g113 = 1, g123 = 0, g213 = 0, g223 = 1, g114 = 1, g124 = 0, g214 = 0, g224 = 1\<rparr>"

text \<open>
  The relative difference that the conservation check computes in two dimensions: the sum
  over the four faces of velocity times outer normal times face area, against the source
  term times the cell volume.
\<close>

definition signedFaceFlux :: "VelocityState \<Rightarrow> nat \<Rightarrow> CellLocals \<Rightarrow> nat \<Rightarrow> Scalar" where
  "signedFaceFlux st globalIdx1 loc i =
     (velocity (variables st) ! globalIdx1 ! i ! 0 * unitOuterNormal loc ! i ! 0
      + velocity (variables st) ! globalIdx1 ! i ! 1 * unitOuterNormal loc ! i ! 1)
       * facevol loc ! i"

definition relativeDifference :: "VelocityState \<Rightarrow> nat \<Rightarrow> CellLocals \<Rightarrow> Scalar \<Rightarrow> Scalar \<Rightarrow> Scalar" where
  "relativeDifference st globalIdx1 loc q1 volume1 =
     \<bar>sum_list (map (signedFaceFlux st globalIdx1 loc) [0..<4]) - q1 * volume1\<bar>
       / (sum_list (map (\<lambda>i. \<bar>signedFaceFlux st globalIdx1 loc i\<bar>) [0..<4]) + \<bar>q1 * volume1\<bar>)"

text \<open>
  A single cell with a source, all four faces on the boundary, and a stand-in for the
  boundary regions that gives every face the outward velocity 3; the state after the four
  regions, and a type tag with a velocity formulation other than the total velocity.
\<close>

definition exGrid1 :: "Element list" where
  "exGrid1 = [cartesianCell 2 0 1 1 [None, None, None, None]]"

definition exProblem1 :: Problem where
  "exProblem1 = \<lparr>gridView = exGrid1,
     intrinsicPermeability = (\<lambda>globalIdx. [[1, 0], [0, 1]]),
     source = (\<lambda>globalIdx. [1, 0])\<rparr>"

definition exLocals :: CellLocals where
  "exLocals = \<lparr>facevol = [2, 2, 2, 2], unitOuterNormal = [[- 1, 0], [1, 0], [0, - 1], [0, 1]]\<rparr>"

definition exBoundaryRegion :: "Problem \<Rightarrow> nat \<Rightarrow> Intersection \<Rightarrow> Intersection \<Rightarrow> VelocityState \<Rightarrow> VelocityState Result" where
  "exBoundaryRegion p globalIdx1 isIt nextisIt st =
     Ok (addVelocity 2 st globalIdx1 (indexInInside isIt)
           (fv_scale 2 (centerUnitOuterNormal isIt) 3))"

definition exAfterRegions :: VelocityState where
  "exAfterRegions =
     (exState [5])\<lparr>variables := (variables (exState [5]))\<lparr>velocity :=
        [[[- 3, 0], [3, 0], [0, - 3], [0, 3]]]\<rparr>\<rparr>"

definition exBeforeCheck :: VelocityState where
  "exBeforeCheck = setPotentials 2 0 exLocals exAfterRegions"

definition exOtherFormulation :: MpfaTypeTag where
  "exOtherFormulation = (exMpfaTypeTag 1)\<lparr>velocityFormulation := 1\<rparr>"





section \<open>Properties of the local residual\<close>

subsection \<open>Auxiliary facts\<close>

lemmas ex_defs = exGeom_def exBcTypes_def exTypeTag_def exContext_def exThis_def

lemma length_setEntry: "length (setEntry res i eq x) = length res"
  by (simp add: setEntry_def)

lemma length_nth_setEntry: "length (setEntry res i eq x ! v) = length (res ! v)"
  by (cases "i < length res") (auto simp: setEntry_def nth_list_update list_update_beyond)

lemma nth_setEntry:
  "i < length res \<Longrightarrow> eq < length (res ! i) \<Longrightarrow>
   setEntry res i eq x ! v ! e = (if v = i \<and> e = eq then x else res ! v ! e)"
  by (auto simp: setEntry_def nth_list_update)

lemmas entry_simps = addEntry_def subEntry_def length_setEntry length_nth_setEntry nth_setEntry

lemma shaped_iff: "shaped nv ne res \<longleftrightarrow> length res = nv \<and> (\<forall>v<nv. length (res ! v) = ne)"
  by (auto simp: shaped_def list_all_length)

lemma fluxEqs_length:
  "length (fold (\<lambda>eq r. addEntry (subEntry r i eq (f eq)) j eq (f eq)) es res) = length res"
  by (induction es arbitrary: res) (simp_all add: entry_simps)

lemma fluxEqs_length_nth:
  "length (fold (\<lambda>eq r. addEntry (subEntry r i eq (f eq)) j eq (f eq)) es res ! v) = length (res ! v)"
  by (induction es arbitrary: res) (simp_all add: entry_simps)

lemma fluxEqs_nth:
  "i < length res \<Longrightarrow> j < length res \<Longrightarrow> \<forall>a\<in>set es. a < length (res ! i) \<and> a < length (res ! j) \<Longrightarrow>
   distinct es \<Longrightarrow>
   fold (\<lambda>eq r. addEntry (subEntry r i eq (f eq)) j eq (f eq)) es res ! v ! e =
     (if e \<in> set es
      then res ! v ! e - (if v = i then f e else 0) + (if v = j then f e else 0)
      else res ! v ! e)"
proof (induction es arbitrary: res)
  case Nil
  then show ?case by simp
next
  case (Cons a es)
  let ?r = "addEntry (subEntry res i a (f a)) j a (f a)"
  have a: "a < length (res ! i)" "a < length (res ! j)" "a \<notin> set es" using Cons.prems by auto
  have step: "?r ! v ! e = (if e = a then res ! v ! e - (if v = i then f e else 0) + (if v = j then f e else 0) else res ! v ! e)"
    using Cons.prems(1,2) a(1,2) by (simp add: entry_simps)
  have "fold (\<lambda>eq r. addEntry (subEntry r i eq (f eq)) j eq (f eq)) (a # es) res ! v ! e
      = fold (\<lambda>eq r. addEntry (subEntry r i eq (f eq)) j eq (f eq)) es ?r ! v ! e" by simp
  also have "\<dots> = (if e \<in> set es
      then ?r ! v ! e - (if v = i then f e else 0) + (if v = j then f e else 0)
      else ?r ! v ! e)"
    using Cons.prems by (intro Cons.IH) (simp_all add: entry_simps)
  finally show ?case using step a by auto
qed

lemma fluxFace_length: "length (fluxFace T ctx k res) = length res"
  by (simp add: fluxFace_def Let_def fluxEqs_length)

lemma fluxFace_length_nth: "length (fluxFace T ctx k res ! v) = length (res ! v)"
  by (simp add: fluxFace_def Let_def fluxEqs_length_nth)

lemma fluxFace_nth:
  assumes "shaped nv (numEq T) res"
    and "scvf_i (subContVolFace (fvElemGeomPtr ctx) ! k) < nv"
    and "scvf_j (subContVolFace (fvElemGeomPtr ctx) ! k) < nv"
    and "e < numEq T"
  shows "fluxFace T ctx k res ! v ! e =
     res ! v ! e
       - (if v = scvf_i (subContVolFace (fvElemGeomPtr ctx) ! k) then computeFlux T ctx k ! e else 0)
       + (if v = scvf_j (subContVolFace (fvElemGeomPtr ctx) ! k) then computeFlux T ctx k ! e else 0)"
  using assms unfolding fluxFace_def Let_def shaped_iff
  by (subst fluxEqs_nth) auto

lemma shaped_fluxFace: "shaped nv ne res \<Longrightarrow> shaped nv ne (fluxFace T ctx k res)"
  by (simp add: shaped_iff fluxFace_length fluxFace_length_nth)


lemma evalFluxes_sum_aux:
  assumes "shaped nv (numEq T) res"
    and "\<forall>k\<in>set ks. scvf_i (subContVolFace (fvElemGeomPtr ctx) ! k) < nv \<and>
                    scvf_j (subContVolFace (fvElemGeomPtr ctx) ! k) < nv"
    and "e < numEq T"
  shows "(\<Sum>v<nv. fold (fluxFace T ctx) ks res ! v ! e) = (\<Sum>v<nv. res ! v ! e)"
  using assms
proof (induction ks arbitrary: res)
  case Nil
  then show ?case by simp
next
  case (Cons k ks)
  let ?i = "scvf_i (subContVolFace (fvElemGeomPtr ctx) ! k)"
  let ?j = "scvf_j (subContVolFace (fvElemGeomPtr ctx) ! k)"
  let ?f = "computeFlux T ctx k ! e"
  have ij: "?i < nv" "?j < nv" using Cons.prems(2) by auto
  have "(\<Sum>v<nv. fold (fluxFace T ctx) (k # ks) res ! v ! e)
      = (\<Sum>v<nv. fluxFace T ctx k res ! v ! e)"
    using Cons.prems by (simp add: Cons.IH shaped_fluxFace)
  also have "\<dots> = (\<Sum>v<nv. res ! v ! e - (if v = ?i then ?f else 0) + (if v = ?j then ?f else 0))"
    using Cons.prems(1,3) ij by (simp add: fluxFace_nth)
  also have "\<dots> = (\<Sum>v<nv. res ! v ! e) - ?f + ?f"
    using ij by (simp add: sum.distrib sum_subtractf)
  finally show ?case by simp
qed

lemma evalFluxes_nth_aux:
  assumes "shaped nv (numEq T) res"
    and "\<forall>k\<in>set ks. scvf_i (subContVolFace (fvElemGeomPtr ctx) ! k) < nv \<and>
                    scvf_j (subContVolFace (fvElemGeomPtr ctx) ! k) < nv"
    and "e < numEq T"
  shows "fold (fluxFace T ctx) ks res ! v ! e =
     res ! v ! e
       - (\<Sum>k\<leftarrow>ks. if v = scvf_i (subContVolFace (fvElemGeomPtr ctx) ! k)
                  then computeFlux T ctx k ! e else 0)
       + (\<Sum>k\<leftarrow>ks. if v = scvf_j (subContVolFace (fvElemGeomPtr ctx) ! k)
                  then computeFlux T ctx k ! e else 0)"
  using assms
proof (induction ks arbitrary: res)
  case Nil
  then show ?case by simp
next
  case (Cons k ks)
  have sh: "shaped nv (numEq T) (fluxFace T ctx k res)"
    using Cons.prems(1) by (rule shaped_fluxFace)
  have ij: "scvf_i (subContVolFace (fvElemGeomPtr ctx) ! k) < nv"
    "scvf_j (subContVolFace (fvElemGeomPtr ctx) ! k) < nv"
    using Cons.prems(2) by auto
  have rest: "\<forall>k\<in>set ks. scvf_i (subContVolFace (fvElemGeomPtr ctx) ! k) < nv \<and>
                    scvf_j (subContVolFace (fvElemGeomPtr ctx) ! k) < nv"
    using Cons.prems(2) by simp
  have step: "fluxFace T ctx k res ! v ! e =
     res ! v ! e
       - (if v = scvf_i (subContVolFace (fvElemGeomPtr ctx) ! k) then computeFlux T ctx k ! e else 0)
       + (if v = scvf_j (subContVolFace (fvElemGeomPtr ctx) ! k) then computeFlux T ctx k ! e else 0)"
    using Cons.prems(1) ij Cons.prems(3) by (rule fluxFace_nth)
  show ?case
    using Cons.IH [OF sh rest Cons.prems(3)] step by simp
qed

lemma nth_fv_scale: "j < n \<Longrightarrow> fv_scale n a c ! j = a ! j * c"
  by (simp add: fv_scale_def)

lemma nth_fv_sub: "j < n \<Longrightarrow> fv_sub n a b ! j = a ! j - b ! j"
  by (simp add: fv_sub_def)

lemma nth_fv_add: "j < n \<Longrightarrow> fv_add n a b ! j = a ! j + b ! j"
  by (simp add: fv_add_def)

lemma length_fv [simp]:
  "length (fv_scale n a c) = n" "length (fv_sub n a b) = n" "length (fv_add n a b) = n"
  "length (fv_const n c) = n"
  by (simp_all add: fv_scale_def fv_sub_def fv_add_def fv_const_def)

lemma updEqs_length:
  "length (fold (\<lambda>j r. setEntry r i j (h j (r ! i ! j))) js res) = length res"
  by (induction js arbitrary: res) (simp_all add: entry_simps)

lemma updEqs_length_nth:
  "length (fold (\<lambda>j r. setEntry r i j (h j (r ! i ! j))) js res ! v) = length (res ! v)"
  by (induction js arbitrary: res) (simp_all add: entry_simps)

lemma updEqs_nth:
  "i < length res \<Longrightarrow> \<forall>a\<in>set js. a < length (res ! i) \<Longrightarrow> distinct js \<Longrightarrow>
   fold (\<lambda>j r. setEntry r i j (h j (r ! i ! j))) js res ! v ! e =
     (if v = i \<and> e \<in> set js then h e (res ! i ! e) else res ! v ! e)"
proof (induction js arbitrary: res)
  case Nil
  then show ?case by simp
next
  case (Cons a js)
  let ?r = "setEntry res i a (h a (res ! i ! a))"
  have a: "a < length (res ! i)" "a \<notin> set js" using Cons.prems by auto
  have step: "?r ! v ! e = (if v = i \<and> e = a then h a (res ! i ! a) else res ! v ! e)"
    using Cons.prems(1) a(1) by (simp add: entry_simps)
  have step': "?r ! i ! e = (if e = a then h a (res ! i ! a) else res ! i ! e)"
    using Cons.prems(1) a(1) by (simp add: entry_simps)
  have "fold (\<lambda>j r. setEntry r i j (h j (r ! i ! j))) (a # js) res ! v ! e
      = fold (\<lambda>j r. setEntry r i j (h j (r ! i ! j))) js ?r ! v ! e" by simp
  also have "\<dots> = (if v = i \<and> e \<in> set js then h e (?r ! i ! e) else ?r ! v ! e)"
    using Cons.prems by (intro Cons.IH) (simp_all add: entry_simps)
  finally show ?case using step step' a by auto
qed

lemma addEqs_length: "length (fold (\<lambda>j r. addEntry r i j (m j)) js res) = length res"
  using updEqs_length [where h = "\<lambda>j old. old + m j"] by (simp add: addEntry_def)

lemma addEqs_length_nth: "length (fold (\<lambda>j r. addEntry r i j (m j)) js res ! v) = length (res ! v)"
  using updEqs_length_nth [where h = "\<lambda>j old. old + m j"] by (simp add: addEntry_def)

lemma addEqs_nth:
  "i < length res \<Longrightarrow> \<forall>a\<in>set js. a < length (res ! i) \<Longrightarrow> distinct js \<Longrightarrow>
   fold (\<lambda>j r. addEntry r i j (m j)) js res ! v ! e =
     (if v = i \<and> e \<in> set js then res ! i ! e + m e else res ! v ! e)"
  using updEqs_nth [where h = "\<lambda>j old. old + m j"] by (simp add: addEntry_def)

lemma subEqs_length: "length (fold (\<lambda>j r. subEntry r i j (m j)) js res) = length res"
  using updEqs_length [where h = "\<lambda>j old. old - m j"] by (simp add: subEntry_def)

lemma subEqs_length_nth: "length (fold (\<lambda>j r. subEntry r i j (m j)) js res ! v) = length (res ! v)"
  using updEqs_length_nth [where h = "\<lambda>j old. old - m j"] by (simp add: subEntry_def)

lemma subEqs_nth:
  "i < length res \<Longrightarrow> \<forall>a\<in>set js. a < length (res ! i) \<Longrightarrow> distinct js \<Longrightarrow>
   fold (\<lambda>j r. subEntry r i j (m j)) js res ! v ! e =
     (if v = i \<and> e \<in> set js then res ! i ! e - m e else res ! v ! e)"
  using updEqs_nth [where h = "\<lambda>j old. old - m j"] by (simp add: subEntry_def)

lemmas eqs_simps = addEqs_length addEqs_length_nth addEqs_nth subEqs_length subEqs_length_nth subEqs_nth

lemma volumeTermsVertex_length: "length (volumeTermsVertex T ctx i res) = length res"
  unfolding volumeTermsVertex_def Let_def by (simp add: eqs_simps)

lemma volumeTermsVertex_length_nth: "length (volumeTermsVertex T ctx i res ! v) = length (res ! v)"
  unfolding volumeTermsVertex_def Let_def by (simp add: eqs_simps)

lemma volumeTermsVertex_nth:
  assumes "i < length res" "numEq T \<le> length (res ! i)"
  shows "volumeTermsVertex T ctx i res ! v ! e =
     (if v = i \<and> e < numEq T then res ! i ! e + volumeContribution T ctx i e else res ! v ! e)"
  using assms unfolding volumeTermsVertex_def Let_def volumeContribution_def
  by (simp add: eqs_simps nth_fv_scale nth_fv_sub)

lemma evalVolumeTerms_aux:
  "\<forall>i\<in>set is. i < length res \<and> numEq T \<le> length (res ! i) \<Longrightarrow> distinct is \<Longrightarrow>
   fold (volumeTermsVertex T ctx) is res ! v ! e =
     (if v \<in> set is \<and> e < numEq T then res ! v ! e + volumeContribution T ctx v e else res ! v ! e)"
proof (induction "is" arbitrary: res)
  case Nil
  then show ?case by simp
next
  case (Cons i "is")
  let ?r = "volumeTermsVertex T ctx i res"
  have i: "i < length res" "numEq T \<le> length (res ! i)" "i \<notin> set is" using Cons.prems by auto
  have "fold (volumeTermsVertex T ctx) (i # is) res ! v ! e = fold (volumeTermsVertex T ctx) is ?r ! v ! e"
    by simp
  also have "\<dots> = (if v \<in> set is \<and> e < numEq T then ?r ! v ! e + volumeContribution T ctx v e else ?r ! v ! e)"
    using Cons.prems by (intro Cons.IH) (simp_all add: volumeTermsVertex_length volumeTermsVertex_length_nth)
  finally show ?case using i by (auto simp: volumeTermsVertex_nth)
qed

lemma evalVolumeTerms_length: "length (evalVolumeTerms' T ctx res) = length res"
proof -
  have "length (fold (volumeTermsVertex T ctx) is res) = length res" for "is"
    by (induction "is" arbitrary: res) (simp_all add: volumeTermsVertex_length)
  then show ?thesis by (simp add: evalVolumeTerms'_def)
qed

lemma evalVolumeTerms_length_nth: "length (evalVolumeTerms' T ctx res ! v) = length (res ! v)"
proof -
  have "length (fold (volumeTermsVertex T ctx) is res ! v) = length (res ! v)" for "is"
    by (induction "is" arbitrary: res) (simp_all add: volumeTermsVertex_length_nth)
  then show ?thesis by (simp add: evalVolumeTerms'_def)
qed

lemma evalVolumeTerms_nth:
  assumes "shaped (numVertices (fvElemGeomPtr ctx)) (numEq T) res"
    and "v < numVertices (fvElemGeomPtr ctx)" and "e < numEq T"
  shows "evalVolumeTerms' T ctx res ! v ! e = res ! v ! e + volumeContribution T ctx v e"
  using assms unfolding evalVolumeTerms'_def shaped_iff
  by (subst evalVolumeTerms_aux) auto

lemma storageVertex_eq:
  "storageVertex T ctx i res =
     res[i := fv_scale (numEq T) (computeStorage T ctx i False)
                 (volume (subContVol (fvElemGeomPtr ctx) ! i))]"
  by (cases "i < length res") (simp_all add: storageVertex_def Let_def list_update_beyond)

lemma evalStorage_aux:
  "\<forall>i\<in>set is. i < length res \<Longrightarrow>
   fold (storageVertex T ctx) is res ! v =
     (if v \<in> set is
      then fv_scale (numEq T) (computeStorage T ctx v False) (volume (subContVol (fvElemGeomPtr ctx) ! v))
      else res ! v)"
proof (induction "is" arbitrary: res)
  case Nil
  then show ?case by simp
next
  case (Cons i "is")
  then show ?case by (auto simp: storageVertex_eq nth_list_update)
qed

lemma evalStorage_priv_nth:
  assumes "length res = numVertices (fvElemGeomPtr ctx)" "v < numVertices (fvElemGeomPtr ctx)"
    and "e < numEq T"
  shows "evalStorage' T ctx res ! v ! e =
     computeStorage T ctx v False ! e * volume (subContVol (fvElemGeomPtr ctx) ! v)"
  using assms unfolding evalStorage'_def
  by (subst evalStorage_aux) (auto simp: nth_fv_scale)

lemma shaped_resetResidual: "shaped nv ne (resetResidual nv ne)"
  by (simp add: shaped_def resetResidual_def list_all_iff)

lemma evalFluxes_length: "length (evalFluxes' T ctx res) = length res"
proof -
  have "length (fold (fluxFace T ctx) ks res) = length res" for ks
    by (induction ks arbitrary: res) (simp_all add: fluxFace_length)
  then show ?thesis by (simp add: evalFluxes'_def)
qed

lemma evalFluxes_length_nth: "length (evalFluxes' T ctx res ! v) = length (res ! v)"
proof -
  have "length (fold (fluxFace T ctx) ks res ! v) = length (res ! v)" for ks
    by (induction ks arbitrary: res) (simp_all add: fluxFace_length_nth)
  then show ?thesis by (simp add: evalFluxes'_def)
qed

lemma shaped_evalFluxes: "shaped nv ne res \<Longrightarrow> shaped nv ne (evalFluxes' T ctx res)"
  by (simp add: shaped_iff evalFluxes_length evalFluxes_length_nth)

lemma shaped_evalVolumeTerms: "shaped nv ne res \<Longrightarrow> shaped nv ne (evalVolumeTerms' T ctx res)"
  by (simp add: shaped_iff evalVolumeTerms_length evalVolumeTerms_length_nth)

lemma fold_preserves: "(\<And>x r. P r \<Longrightarrow> P (f x r)) \<Longrightarrow> P r \<Longrightarrow> P (fold f xs r)"
  by (induction xs arbitrary: r) auto

lemma shaped_evalNeumannSegment:
  "shaped nv (numEq T) res \<Longrightarrow> shaped nv (numEq T) (evalNeumannSegment' T ctx isIt scvIdx b res)"
  by (cases "scvIdx < length res")
     (auto simp: shaped_iff evalNeumannSegment'_def Let_def nth_list_update list_update_beyond)

lemma shaped_neumannFace:
  "shaped nv (numEq T) res \<Longrightarrow> shaped nv (numEq T) (neumannFace T ctx isIt res)"
  unfolding neumannFace_def Let_def
  by (auto intro!: fold_preserves shaped_evalNeumannSegment)

lemma shaped_evalNeumann:
  "shaped nv (numEq T) res \<Longrightarrow> shaped nv (numEq T) (evalNeumann' T ctx res)"
  unfolding evalNeumann'_def
  by (auto intro!: fold_preserves shaped_neumannFace)

lemma dirichletEqs_length:
  "length (fold (\<lambda>eqIdx r. if c eqIdx then r else setEntry r i eqIdx (x eqIdx)) es res) = length res"
  by (induction es arbitrary: res) (simp_all add: entry_simps)

lemma dirichletEqs_length_nth:
  "length (fold (\<lambda>eqIdx r. if c eqIdx then r else setEntry r i eqIdx (x eqIdx)) es res ! v) = length (res ! v)"
  by (induction es arbitrary: res) (simp_all add: entry_simps)

lemma dirichletEqs_nth:
  "i < length res \<Longrightarrow> \<forall>a\<in>set es. a < length (res ! i) \<Longrightarrow>
   fold (\<lambda>eqIdx r. if c eqIdx then r else setEntry r i eqIdx (x eqIdx)) es res ! v ! e =
     (if v = i \<and> e \<in> set es \<and> \<not> c e then x e else res ! v ! e)"
proof (induction es arbitrary: res)
  case Nil
  then show ?case by simp
next
  case (Cons a es)
  let ?r = "if c a then res else setEntry res i a (x a)"
  have a: "a < length (res ! i)" using Cons.prems by auto
  have step: "?r ! v ! e = (if v = i \<and> e = a \<and> \<not> c a then x a else res ! v ! e)"
    using Cons.prems(1) a by (simp add: entry_simps)
  have "fold (\<lambda>eqIdx r. if c eqIdx then r else setEntry r i eqIdx (x eqIdx)) (a # es) res ! v ! e
      = fold (\<lambda>eqIdx r. if c eqIdx then r else setEntry r i eqIdx (x eqIdx)) es ?r ! v ! e"
    by simp
  also have "\<dots> = (if v = i \<and> e \<in> set es \<and> \<not> c e then x e else ?r ! v ! e)"
    using Cons.prems by (intro Cons.IH) (simp_all add: entry_simps)
  finally show ?case using step by auto
qed

lemma hasDirichlet_iff: "hasDirichlet n bt \<longleftrightarrow> (\<exists>e<n. isDirichlet bt e)"
  by (auto simp: hasDirichlet_def list_ex_iff)

lemma dirichletVertex_length: "length (dirichletVertex T ctx i res) = length res"
  unfolding dirichletVertex_def Let_def
  using dirichletEqs_length [where c = "\<lambda>e. \<not> isDirichlet (bcTypesPtr ctx ! i) e"]
  by simp

lemma dirichletVertex_length_nth: "length (dirichletVertex T ctx i res ! v) = length (res ! v)"
  unfolding dirichletVertex_def Let_def
  using dirichletEqs_length_nth [where c = "\<lambda>e. \<not> isDirichlet (bcTypesPtr ctx ! i) e"]
  by simp

lemma dirichletVertex_nth:
  assumes "i < length res" "numEq T \<le> length (res ! i)"
  shows "dirichletVertex T ctx i res ! v ! e =
     (if v = i \<and> e < numEq T \<and> isDirichlet (bcTypesPtr ctx ! i) e
      then dirichletValue T ctx i e else res ! v ! e)"
proof (cases "hasDirichlet (numEq T) (bcTypesPtr ctx ! i)")
  case False
  then show ?thesis by (auto simp: dirichletVertex_def hasDirichlet_iff)
next
  case True
  then show ?thesis
    unfolding dirichletVertex_def Let_def dirichletValue_def
    using assms
      dirichletEqs_nth [where c = "\<lambda>e. \<not> isDirichlet (bcTypesPtr ctx ! i) e" and i = i and res = res
        and es = "[0..<numEq T]" and v = v and e = e
        and x = "\<lambda>e. primaryVars T (curVolVarsPtr ctx ! i) ! eqToDirichletIndex (bcTypesPtr ctx ! i) e
                       - dirichlet T (problemPtr ctx) (elemPtr ctx) i ! eqToDirichletIndex (bcTypesPtr ctx ! i) e"]
    by auto
qed

lemma evalDirichlet_aux:
  "\<forall>i\<in>set is. i < length res \<and> numEq T \<le> length (res ! i) \<Longrightarrow> distinct is \<Longrightarrow>
   fold (dirichletVertex T ctx) is res ! v ! e =
     (if v \<in> set is \<and> e < numEq T \<and> isDirichlet (bcTypesPtr ctx ! v) e
      then dirichletValue T ctx v e else res ! v ! e)"
proof (induction "is" arbitrary: res)
  case Nil
  then show ?case by simp
next
  case (Cons i "is")
  let ?r = "dirichletVertex T ctx i res"
  have i: "i < length res" "numEq T \<le> length (res ! i)" "i \<notin> set is" using Cons.prems by auto
  have "fold (dirichletVertex T ctx) (i # is) res ! v ! e = fold (dirichletVertex T ctx) is ?r ! v ! e"
    by simp
  also have "\<dots> = (if v \<in> set is \<and> e < numEq T \<and> isDirichlet (bcTypesPtr ctx ! v) e
      then dirichletValue T ctx v e else ?r ! v ! e)"
    using Cons.prems by (intro Cons.IH) (simp_all add: dirichletVertex_length dirichletVertex_length_nth)
  finally show ?case using i by (auto simp: dirichletVertex_nth)
qed

lemma evalDirichlet_nth:
  assumes "shaped (numVertices (fvElemGeomPtr ctx)) (numEq T) res"
    and "v < numVertices (fvElemGeomPtr ctx)" and "e < numEq T"
  shows "evalDirichlet' T ctx res ! v ! e =
     (if isDirichlet (bcTypesPtr ctx ! v) e then dirichletValue T ctx v e else res ! v ! e)"
  using assms unfolding evalDirichlet'_def shaped_iff
  by (subst evalDirichlet_aux) auto

lemma facesInRange_iff:
  "facesInRange fv \<longleftrightarrow> numEdges fv \<le> length (subContVolFace fv) \<and>
     (\<forall>k<numEdges fv. scvf_i (subContVolFace fv ! k) < numVertices fv \<and>
                       scvf_j (subContVolFace fv ! k) < numVertices fv)"
  by (auto simp: facesInRange_def list_all_iff)

lemma elemHasDirichlet_nth:
  "i < length bcs \<Longrightarrow> e < n \<Longrightarrow> isDirichlet (bcs ! i) e \<Longrightarrow> elemHasDirichlet n bcs"
  unfolding elemHasDirichlet_def list_ex_iff hasDirichlet_iff
  using nth_mem by blast

lemma residual_eval:
  "residual (eval T this element fvGeom prevVolVars curVolVars bcTypes) =
     (let ctx = (callContext this)\<lparr>elemPtr := element, fvElemGeomPtr := fvGeom,
                  bcTypesPtr := bcTypes, prevVolVarsPtr := Some prevVolVars,
                  curVolVarsPtr := curVolVars\<rparr>;
          r2 = evalVolumeTerms' T ctx (evalFluxes' T ctx (resetResidual (numVertices fvGeom) (numEq T)));
          r3 = (if elemHasNeumann (numEq T) bcTypes then evalNeumann' T ctx r2 else r2)
      in if elemHasDirichlet (numEq T) bcTypes then evalDirichlet' T ctx r3 else r3)"
  by (simp add: eval_def Let_def)

lemma callContext_eval:
  "callContext (eval T this element fvGeom prevVolVars curVolVars bcTypes) =
     (callContext this)\<lparr>elemPtr := element, fvElemGeomPtr := fvGeom,
                  bcTypesPtr := bcTypes, prevVolVarsPtr := Some prevVolVars,
                  curVolVarsPtr := curVolVars\<rparr>"
  by (simp add: eval_def Let_def)

lemma problemPtr_eval:
  "problemPtr (callContext (eval T this element fvGeom prevVolVars curVolVars bcTypes)) =
     problemPtr (callContext this)"
  by (simp add: callContext_eval)

lemma problemPtr_evalElement:
  "problemPtr (callContext (evalElement T this element)) =
     updateCouplingParams T (problemPtr (callContext this)) element"
  by (simp add: evalElement_def Let_def callContext_eval)

lemma ctx_update_eq:
  "c\<lparr>elemPtr := a, fvElemGeomPtr := b, bcTypesPtr := d, prevVolVarsPtr := f, curVolVarsPtr := g\<rparr>
     = \<lparr>problemPtr = problemPtr c, elemPtr = a, fvElemGeomPtr = b, prevVolVarsPtr = f,
        curVolVarsPtr = g, bcTypesPtr = d\<rparr>"
  by (cases c) simp

subsection \<open>The flux pass\<close>

text \<open>
  Claim C1. The flux pass visits every sub-control-volume face of the element: after it,
  each residual entry is its old value, minus the fluxes of all faces \<open>k\<close> whose first
  sub-control volume \<open>i\<close> is the entry's, plus the fluxes of all faces whose second
  sub-control volume \<open>j\<close> is the entry's. At one face the pass computes one flux vector,
  subtracts it from the residual of \<open>i\<close> and adds the same vector to the residual of
  \<open>j\<close>, in every equation component. Hence the pass leaves the sum of each equation
  component over the sub-control volumes of the cell unchanged, and starting from the
  zeroed residual that sum is zero.
\<close>

theorem evalFluxes_locally_conservative:
  assumes "facesInRange (fvElemGeomPtr ctx)"
    and "shaped (numVertices (fvElemGeomPtr ctx)) (numEq T) res"
    and "e < numEq T"
  shows "(\<forall>v. evalFluxes' T ctx res ! v ! e =
            res ! v ! e
              - (\<Sum>k<numEdges (fvElemGeomPtr ctx).
                   if v = scvf_i (subContVolFace (fvElemGeomPtr ctx) ! k)
                   then computeFlux T ctx k ! e else 0)
              + (\<Sum>k<numEdges (fvElemGeomPtr ctx).
                   if v = scvf_j (subContVolFace (fvElemGeomPtr ctx) ! k)
                   then computeFlux T ctx k ! e else 0))
       \<and> (\<forall>k<numEdges (fvElemGeomPtr ctx). \<forall>v.
            fluxFace T ctx k res ! v ! e =
              res ! v ! e
                - (if v = scvf_i (subContVolFace (fvElemGeomPtr ctx) ! k)
                   then computeFlux T ctx k ! e else 0)
                + (if v = scvf_j (subContVolFace (fvElemGeomPtr ctx) ! k)
                   then computeFlux T ctx k ! e else 0))
       \<and> (\<Sum>v<numVertices (fvElemGeomPtr ctx). evalFluxes' T ctx res ! v ! e)
           = (\<Sum>v<numVertices (fvElemGeomPtr ctx). res ! v ! e)
       \<and> (\<Sum>v<numVertices (fvElemGeomPtr ctx).
             evalFluxes' T ctx (resetResidual (numVertices (fvElemGeomPtr ctx)) (numEq T)) ! v ! e) = 0"
proof (intro conjI allI impI)
  have inr: "\<forall>k\<in>set [0..<numEdges (fvElemGeomPtr ctx)].
      scvf_i (subContVolFace (fvElemGeomPtr ctx) ! k) < numVertices (fvElemGeomPtr ctx) \<and>
      scvf_j (subContVolFace (fvElemGeomPtr ctx) ! k) < numVertices (fvElemGeomPtr ctx)"
    using assms(1) by (simp add: facesInRange_iff)
  {
    fix v
    show "evalFluxes' T ctx res ! v ! e =
        res ! v ! e
          - (\<Sum>k<numEdges (fvElemGeomPtr ctx).
               if v = scvf_i (subContVolFace (fvElemGeomPtr ctx) ! k)
               then computeFlux T ctx k ! e else 0)
          + (\<Sum>k<numEdges (fvElemGeomPtr ctx).
               if v = scvf_j (subContVolFace (fvElemGeomPtr ctx) ! k)
               then computeFlux T ctx k ! e else 0)"
      unfolding evalFluxes'_def evalFluxes_nth_aux [OF assms(2) inr assms(3)]
      by (simp add: interv_sum_list_conv_sum_set_nat atLeast0LessThan)
  }
  {
    fix k v
    assume "k < numEdges (fvElemGeomPtr ctx)"
    then show "fluxFace T ctx k res ! v ! e =
        res ! v ! e
          - (if v = scvf_i (subContVolFace (fvElemGeomPtr ctx) ! k) then computeFlux T ctx k ! e else 0)
          + (if v = scvf_j (subContVolFace (fvElemGeomPtr ctx) ! k) then computeFlux T ctx k ! e else 0)"
      using assms by (intro fluxFace_nth) (auto simp: facesInRange_iff)
  }
  show "(\<Sum>v<numVertices (fvElemGeomPtr ctx). evalFluxes' T ctx res ! v ! e)
      = (\<Sum>v<numVertices (fvElemGeomPtr ctx). res ! v ! e)"
    unfolding evalFluxes'_def using assms(2) inr assms(3) by (rule evalFluxes_sum_aux)
  have "(\<Sum>v<numVertices (fvElemGeomPtr ctx).
          evalFluxes' T ctx (resetResidual (numVertices (fvElemGeomPtr ctx)) (numEq T)) ! v ! e)
      = (\<Sum>v<numVertices (fvElemGeomPtr ctx).
          resetResidual (numVertices (fvElemGeomPtr ctx)) (numEq T) ! v ! e)"
    unfolding evalFluxes'_def using shaped_resetResidual inr assms(3) by (rule evalFluxes_sum_aux)
  also have "\<dots> = 0"
    using assms(3) by (simp add: resetResidual_def fv_const_def)
  finally show "(\<Sum>v<numVertices (fvElemGeomPtr ctx).
          evalFluxes' T ctx (resetResidual (numVertices (fvElemGeomPtr ctx)) (numEq T)) ! v ! e) = 0" .
qed

theorem evalFluxes_locally_conservative_witness:
  "facesInRange (fvElemGeomPtr exTriangleContext)
   \<and> shaped (numVertices (fvElemGeomPtr exTriangleContext)) (numEq exTriangleTag)
       [[1, 2], [3, 4], [5, 6]]
   \<and> (1::nat) < numEq exTriangleTag
   \<and> evalFluxes' exTriangleTag exTriangleContext [[1, 2], [3, 4], [5, 6]]
       = [[3, 22], [2, - 6], [4, - 4]]
   \<and> evalFluxes' exTriangleTag exTriangleContext [[1, 2], [3, 4], [5, 6]] ! 0 ! 1
       = 2 - (\<Sum>k<3. if 0 = scvf_i (subContVolFace exTriangle ! k)
                      then computeFlux exTriangleTag exTriangleContext k ! 1 else 0)
           + (\<Sum>k<3. if 0 = scvf_j (subContVolFace exTriangle ! k)
                      then computeFlux exTriangleTag exTriangleContext k ! 1 else 0)
   \<and> (\<Sum>v<3. evalFluxes' exTriangleTag exTriangleContext [[1, 2], [3, 4], [5, 6]] ! v ! 1) = 12
   \<and> (\<Sum>v<3. evalFluxes' exTriangleTag exTriangleContext (resetResidual 3 2) ! v ! 1) = 0"
proof -
  have h1: "facesInRange (fvElemGeomPtr exTriangleContext)" by code_simp
  have h2: "shaped (numVertices (fvElemGeomPtr exTriangleContext)) (numEq exTriangleTag)
      [[1, 2], [3, 4], [5, 6]]"
    by code_simp
  have h3: "(1::nat) < numEq exTriangleTag" by code_simp
  have n: "fvElemGeomPtr exTriangleContext = exTriangle" "numEq exTriangleTag = 2"
    "numVertices exTriangle = 3" "numEdges exTriangle = 3"
    by (simp_all add: ex_defs exTriangleContext_def exTriangleTag_def exTriangle_def)
  have f: "evalFluxes' exTriangleTag exTriangleContext [[1, 2], [3, 4], [5, 6]]
      = [[3, 22], [2, - 6], [4, - 4]]" by code_simp
  have s: "(\<Sum>v<3. [[1, 2], [3, 4], [5, 6::real]] ! v ! 1) = 12"
    by (simp add: numeral_3_eq_3)
  have r: "[[1, 2], [3, 4], [5, 6::real]] ! 0 ! 1 = 2" by simp
  note t = evalFluxes_locally_conservative [OF h1 h2 h3, unfolded n]
  have c1: "evalFluxes' exTriangleTag exTriangleContext [[1, 2], [3, 4], [5, 6]] ! 0 ! 1
       = 2 - (\<Sum>k<3. if 0 = scvf_i (subContVolFace exTriangle ! k)
                      then computeFlux exTriangleTag exTriangleContext k ! 1 else 0)
           + (\<Sum>k<3. if 0 = scvf_j (subContVolFace exTriangle ! k)
                      then computeFlux exTriangleTag exTriangleContext k ! 1 else 0)"
    using t [THEN conjunct1, THEN spec, of 0] unfolding r .
  have c3: "(\<Sum>v<3. evalFluxes' exTriangleTag exTriangleContext [[1, 2], [3, 4], [5, 6]] ! v ! 1) = 12"
    using t [THEN conjunct2, THEN conjunct2, THEN conjunct1] unfolding s .
  have c4: "(\<Sum>v<3. evalFluxes' exTriangleTag exTriangleContext (resetResidual 3 2) ! v ! 1) = 0"
    using t [THEN conjunct2, THEN conjunct2, THEN conjunct2] .
  show ?thesis
    using h1 h2 h3 f c1 c3 c4 by (intro conjI)
qed

subsection \<open>The Dirichlet pass\<close>

text \<open>
  Claim C2. If the boundary types of sub-control volume \<open>i\<close> mark equation \<open>e\<close> as
  Dirichlet, then after a full evaluation \<open>residual[i][e]\<close> is the current primary
  variable minus the prescribed value, both read at the primary-variable index that the
  boundary types assign to \<open>e\<close>. The value is written, not added: the Dirichlet pass gives
  this value whatever the flux, volume and Neumann passes have left in the component.
\<close>

theorem eval_dirichlet_overwrites:
  assumes "length bcTypes = numVertices fvGeom"
    and "i < numVertices fvGeom" and "e < numEq T"
    and "isDirichlet (bcTypes ! i) e"
  shows "residual (eval T this element fvGeom prevVolVars curVolVars bcTypes) ! i ! e =
           primaryVars T (curVolVars ! i) ! eqToDirichletIndex (bcTypes ! i) e
             - dirichlet T (problemPtr (callContext this)) element i ! eqToDirichletIndex (bcTypes ! i) e
       \<and> (\<forall>res. shaped (numVertices fvGeom) (numEq T) res \<longrightarrow>
            evalDirichlet' T (callContext (eval T this element fvGeom prevVolVars curVolVars bcTypes)) res ! i ! e =
              primaryVars T (curVolVars ! i) ! eqToDirichletIndex (bcTypes ! i) e
                - dirichlet T (problemPtr (callContext this)) element i ! eqToDirichletIndex (bcTypes ! i) e)"
proof -
  let ?ctx = "(callContext this)\<lparr>elemPtr := element, fvElemGeomPtr := fvGeom,
                  bcTypesPtr := bcTypes, prevVolVarsPtr := Some prevVolVars,
                  curVolVarsPtr := curVolVars\<rparr>"
  let ?val = "primaryVars T (curVolVars ! i) ! eqToDirichletIndex (bcTypes ! i) e
             - dirichlet T (problemPtr (callContext this)) element i ! eqToDirichletIndex (bcTypes ! i) e"
  have val: "dirichletValue T ?ctx i e = ?val"
    by (simp add: dirichletValue_def Let_def)
  have any: "evalDirichlet' T ?ctx res ! i ! e = ?val" if "shaped (numVertices fvGeom) (numEq T) res" for res
    using that assms evalDirichlet_nth [of ?ctx T res i e] val by simp
  let ?r2 = "evalVolumeTerms' T ?ctx (evalFluxes' T ?ctx (resetResidual (numVertices fvGeom) (numEq T)))"
  let ?r3 = "if elemHasNeumann (numEq T) bcTypes then evalNeumann' T ?ctx ?r2 else ?r2"
  have "shaped (numVertices fvGeom) (numEq T) ?r2"
    by (intro shaped_evalVolumeTerms shaped_evalFluxes shaped_resetResidual)
  then have sh3: "shaped (numVertices fvGeom) (numEq T) ?r3"
    by (simp add: shaped_evalNeumann)
  have has: "elemHasDirichlet (numEq T) bcTypes"
    using assms by (intro elemHasDirichlet_nth [of i _ e]) simp_all
  have "residual (eval T this element fvGeom prevVolVars curVolVars bcTypes) = evalDirichlet' T ?ctx ?r3"
    using has by (simp add: residual_eval Let_def)
  then show ?thesis using any [OF sh3] any by (simp add: callContext_eval)
qed

theorem eval_dirichlet_overwrites_witness:
  "length exBcTypes = numVertices exGeom \<and> (0::nat) < numVertices exGeom \<and> (1::nat) < numEq exTypeTag
   \<and> isDirichlet (exBcTypes ! 0) 1
   \<and> residual (eval exTypeTag exThis 0 exGeom [[0, 0], [0, 0]] [[11, 22], [33, 44]] exBcTypes) ! 0 ! 1
       = 22 - 20"
proof -
  have h1: "length exBcTypes = numVertices exGeom" by code_simp
  have h2: "(0::nat) < numVertices exGeom" by code_simp
  have h3: "(1::nat) < numEq exTypeTag" by code_simp
  have h4: "isDirichlet (exBcTypes ! 0) 1" by code_simp
  have v: "primaryVars exTypeTag ([[11, 22], [33, 44]] ! 0) ! eqToDirichletIndex (exBcTypes ! 0) 1
             - dirichlet exTypeTag (problemPtr (callContext exThis)) 0 0 ! eqToDirichletIndex (exBcTypes ! 0) 1
           = 22 - 20"
    by (simp add: ex_defs)
  show ?thesis
    using eval_dirichlet_overwrites [OF h1 h2 h3 h4, of exThis 0 "[[0, 0], [0, 0]]" "[[11, 22], [33, 44]]"]
      h1 h2 h3 h4 v by simp
qed

subsection \<open>The volume terms and the storage-only entry point\<close>

text \<open>
  Claim C3. The volume-term pass adds, for sub-control volume \<open>i\<close> and equation \<open>j\<close>,
  the storage at the current solution minus the storage at the previous solution, times
  the volume over the time step size, and subtracts the source times the volume. The
  storage-only entry point leaves in \<open>residual[i][j]\<close> the storage at the current
  solution times the volume, computed by the same \<open>computeStorage\<close>.
\<close>

theorem volume_terms_and_storage:
  assumes "i < numVertices (fvElemGeomPtr ctx)" and "j < numEq T"
    and "shaped (numVertices (fvElemGeomPtr ctx)) (numEq T) res"
    and "i < numVertices (fvGeomUpdate T (problemPtr (callContext this)) element)"
  shows "evalVolumeTerms' T ctx res ! i ! j =
           res ! i ! j
             + (computeStorage T ctx i False ! j - computeStorage T ctx i True ! j)
                 * (volume (subContVol (fvElemGeomPtr ctx) ! i) / timeStepSize T (problemPtr ctx))
             - computeSource T ctx i ! j * volume (subContVol (fvElemGeomPtr ctx) ! i)
       \<and> residual (evalStorage T this element) ! i ! j =
           computeStorage T (callContext (evalStorage T this element)) i False ! j
             * volume (subContVol (fvGeomUpdate T (problemPtr (callContext this)) element) ! i)"
proof
  show "evalVolumeTerms' T ctx res ! i ! j =
           res ! i ! j
             + (computeStorage T ctx i False ! j - computeStorage T ctx i True ! j)
                 * (volume (subContVol (fvElemGeomPtr ctx) ! i) / timeStepSize T (problemPtr ctx))
             - computeSource T ctx i ! j * volume (subContVol (fvElemGeomPtr ctx) ! i)"
    using evalVolumeTerms_nth [OF assms(3,1,2)] by (simp add: volumeContribution_def)
next
  let ?fv = "fvGeomUpdate T (problemPtr (callContext this)) element"
  let ?ctx = "callContext (evalStorage T this element)"
  have fv: "fvElemGeomPtr ?ctx = ?fv" by (simp add: evalStorage_def Let_def)
  have r: "residual (evalStorage T this element) =
      evalStorage' T ?ctx (resetResidual (numVertices ?fv) (numEq T))"
    by (simp add: evalStorage_def Let_def)
  have "length (resetResidual (numVertices ?fv) (numEq T)) = numVertices (fvElemGeomPtr ?ctx)"
    by (simp add: fv resetResidual_def)
  from evalStorage_priv_nth [OF this, of i j] assms(2,4)
  show "residual (evalStorage T this element) ! i ! j =
      computeStorage T ?ctx i False ! j * volume (subContVol ?fv ! i)"
    by (simp add: r fv)
qed

theorem volume_terms_and_storage_witness:
  "(1::nat) < numVertices (fvElemGeomPtr exContext) \<and> (0::nat) < numEq exTypeTag
   \<and> shaped (numVertices (fvElemGeomPtr exContext)) (numEq exTypeTag) [[1, 2], [3, 4]]
   \<and> (1::nat) < numVertices (fvGeomUpdate exTypeTag (problemPtr (callContext exThis)) 0)
   \<and> evalVolumeTerms' exTypeTag exContext [[1, 2], [3, 4]] ! 1 ! 0 = 3 + (3 - 1) * (4 / 2) - 1 * 4
   \<and> residual (evalStorage exTypeTag exThis 0) ! 1 ! 0 = 3 * 4"
proof -
  have h1: "(1::nat) < numVertices (fvElemGeomPtr exContext)" by code_simp
  have h2: "(0::nat) < numEq exTypeTag" by code_simp
  have h3: "shaped (numVertices (fvElemGeomPtr exContext)) (numEq exTypeTag) [[1, 2], [3, 4]]"
    by code_simp
  have h4: "(1::nat) < numVertices (fvGeomUpdate exTypeTag (problemPtr (callContext exThis)) 0)"
    by code_simp
  show ?thesis
    using volume_terms_and_storage [OF h1 h2 h3 h4] h1 h2 h3 h4
    by (simp add: ex_defs)
qed

subsection \<open>The Neumann pass\<close>

text \<open>
  Claim C4, as the code has it. For a sub-control volume whose boundary types have at least
  one Neumann equation, a boundary segment adds the flux vector returned by the problem,
  times the area of the boundary face, to every equation component of that sub-control
  volume; the residual of a sub-control volume without a Neumann equation, and of every
  other sub-control volume, is left as it is. The pass does not look at the classification
  of the single equations.
\<close>

theorem evalNeumannSegment_adds_whole_vector:
  assumes "scvIdx < length res" and "e < numEq T"
  shows "evalNeumannSegment' T ctx isIt scvIdx boundaryFaceIdx res ! v ! e =
     (if v = scvIdx \<and> hasNeumann (numEq T) (bcTypesPtr ctx ! scvIdx)
      then res ! v ! e
           + neumann T (problemPtr ctx) (elemPtr ctx) (fvElemGeomPtr ctx) isIt scvIdx boundaryFaceIdx ! e
             * area (boundaryFace (fvElemGeomPtr ctx) ! boundaryFaceIdx)
      else res ! v ! e)"
proof (cases "hasNeumann (numEq T) (bcTypesPtr ctx ! scvIdx)")
  case False
  then show ?thesis by (simp add: evalNeumannSegment'_def)
next
  case True
  let ?scaled = "fv_scale (numEq T)
      (neumann T (problemPtr ctx) (elemPtr ctx) (fvElemGeomPtr ctx) isIt scvIdx boundaryFaceIdx)
      (area (boundaryFace (fvElemGeomPtr ctx) ! boundaryFaceIdx))"
  have r: "evalNeumannSegment' T ctx isIt scvIdx boundaryFaceIdx res =
      res[scvIdx := fv_add (numEq T) (res ! scvIdx) ?scaled]"
    using True by (simp add: evalNeumannSegment'_def Let_def)
  have "fv_add (numEq T) (res ! scvIdx) ?scaled ! e =
      res ! scvIdx ! e
        + neumann T (problemPtr ctx) (elemPtr ctx) (fvElemGeomPtr ctx) isIt scvIdx boundaryFaceIdx ! e
          * area (boundaryFace (fvElemGeomPtr ctx) ! boundaryFaceIdx)"
    using assms(2) by (simp add: nth_fv_add nth_fv_scale)
  then show ?thesis
    using True assms(1) unfolding r by (simp add: nth_list_update)
qed

theorem evalNeumannSegment_adds_whole_vector_witness:
  "(0::nat) < length [[0, 0], [0, 0::real]] \<and> (1::nat) < numEq exTypeTag
   \<and> hasNeumann (numEq exTypeTag) (bcTypesPtr exContext ! 0)
   \<and> evalNeumannSegment' exTypeTag exContext \<lparr>boundary = True, indexInInside = 0\<rparr> 0 0
         [[0, 0], [0, 0]] ! 0 ! 1 = 0 + 2 * 3"
proof -
  have h1: "(0::nat) < length [[0, 0], [0, 0::real]]" by simp
  have h2: "(1::nat) < numEq exTypeTag" by code_simp
  have h3: "hasNeumann (numEq exTypeTag) (bcTypesPtr exContext ! 0)" by code_simp
  show ?thesis
    using evalNeumannSegment_adds_whole_vector [OF h1 h2, of exContext
        "\<lparr>boundary = True, indexInInside = 0\<rparr>" 0 0] h1 h2 h3
    by (simp add: ex_defs)
qed

text \<open>
  In the small element, equation 1 of sub-control volume 0 is a Dirichlet equation, and the
  Neumann pass still adds \<open>2 * 3\<close> to that component.
\<close>

theorem evalNeumannSegment_not_only_neumann_components:
  "\<not> isNeumann (bcTypesPtr exContext ! 0) 1
   \<and> evalNeumannSegment' exTypeTag exContext \<lparr>boundary = True, indexInInside = 0\<rparr> 0 0
         [[0, 0], [0, 0]] = [[3, 6], [0, 0]]
   \<and> evalNeumann' exTypeTag exContext [[0, 0], [0, 0]] ! 0 ! 1 \<noteq> [[0, 0], [0, 0]] ! 0 ! 1"
  by code_simp

subsection \<open>Side effects of an evaluation\<close>

text \<open>
  Claim C5. An evaluation should change nothing but the residual. The entry point that takes
  only the element calls \<open>updateCouplingParams\<close> of the problem before it evaluates; with
  a problem whose hook changes its state, the problem after the call differs from the
  problem before it.
\<close>

theorem evalElement_changes_problem:
  "problemPtr (callContext exThis) = 0
   \<and> problemPtr (callContext (evalElement exTypeTag exThis 0)) = 1
   \<and> residual (evalElement exTypeTag exThis 0) = [[- 2, 2], [5, 5]]"
  by code_simp

subsection \<open>Repeated evaluation\<close>

text \<open>
  Claim C6. Evaluating twice in succession with the same element, geometry, volume variables
  and boundary types gives the same result as evaluating once; the residual that the
  evaluator held before the call has no influence, because the residual is resized to the
  number of sub-control volumes and zeroed at the start.
\<close>

theorem eval_idempotent:
  "eval T (eval T this element fvGeom prevVolVars curVolVars bcTypes)
       element fvGeom prevVolVars curVolVars bcTypes
     = eval T this element fvGeom prevVolVars curVolVars bcTypes
   \<and> residual (eval T (this\<lparr>residual := r\<rparr>) element fvGeom prevVolVars curVolVars bcTypes)
     = residual (eval T this element fvGeom prevVolVars curVolVars bcTypes)
   \<and> length (residual (eval T this element fvGeom prevVolVars curVolVars bcTypes))
     = numVertices fvGeom"
proof (intro conjI)
  let ?ctx = "(callContext this)\<lparr>elemPtr := element, fvElemGeomPtr := fvGeom,
                  bcTypesPtr := bcTypes, prevVolVarsPtr := Some prevVolVars,
                  curVolVarsPtr := curVolVars\<rparr>"
  have c: "callContext (eval T this element fvGeom prevVolVars curVolVars bcTypes) = ?ctx"
    by (rule callContext_eval)
  have same: "eval T s element fvGeom prevVolVars curVolVars bcTypes
            = eval T this element fvGeom prevVolVars curVolVars bcTypes"
    if "problemPtr (callContext s) = problemPtr (callContext this)" for s
  proof -
    have "(callContext s)\<lparr>elemPtr := element, fvElemGeomPtr := fvGeom,
                  bcTypesPtr := bcTypes, prevVolVarsPtr := Some prevVolVars,
                  curVolVarsPtr := curVolVars\<rparr> = ?ctx"
      using that by (simp only: ctx_update_eq)
    then show ?thesis unfolding eval_def by (simp only:)
  qed
  show "eval T (eval T this element fvGeom prevVolVars curVolVars bcTypes)
       element fvGeom prevVolVars curVolVars bcTypes
     = eval T this element fvGeom prevVolVars curVolVars bcTypes"
    by (rule same) (simp add: c)
  show "residual (eval T (this\<lparr>residual := r\<rparr>) element fvGeom prevVolVars curVolVars bcTypes)
     = residual (eval T this element fvGeom prevVolVars curVolVars bcTypes)"
    by (rule arg_cong [where f = residual], rule same) simp
  let ?r2 = "evalVolumeTerms' T ?ctx (evalFluxes' T ?ctx (resetResidual (numVertices fvGeom) (numEq T)))"
  let ?r3 = "if elemHasNeumann (numEq T) bcTypes then evalNeumann' T ?ctx ?r2 else ?r2"
  have "shaped (numVertices fvGeom) (numEq T) ?r2"
    by (intro shaped_evalVolumeTerms shaped_evalFluxes shaped_resetResidual)
  then have sh3: "shaped (numVertices fvGeom) (numEq T) ?r3"
    by (simp add: shaped_evalNeumann)
  have "length (evalDirichlet' T ?ctx ?r3) = length ?r3"
    unfolding evalDirichlet'_def
    by (rule fold_preserves [where P = "\<lambda>r. length r = length ?r3"]) (simp_all add: dirichletVertex_length)
  then show "length (residual (eval T this element fvGeom prevVolVars curVolVars bcTypes))
     = numVertices fvGeom"
    using sh3 by (simp add: residual_eval Let_def shaped_iff)
qed

section \<open>Properties of the velocity computation\<close>

subsection \<open>Auxiliary facts\<close>

lemma rightmultiply_mmult: "rightmultiply n X M = mmult n X M"
  by (simp add: rightmultiply_def mmult_def)

lemma leftmultiply_mmult: "leftmultiply n X M = mmult n M X"
  by (simp add: leftmultiply_def mmult_def)

lemma umv_zero: "umv n n M x (fv_const n 0) = mvmult n M x"
  by (simp add: umv_def mvmult_def fv_const_def)

lemma upt4: "[0..<4] = [0, 1, 2, 3]"
  by (simp add: upt_rec)

lemma localPressure4:
  "localPressure 4 reg = [press1 reg, press2 reg, press3 reg, press4 reg]"
  by (simp add: localPressure_def fv_const_def eval_nat_numeral)

lemma fm_const4: "fm_const 4 4 0 = [[0, 0, 0, 0], [0, 0, 0, 0], [0, 0, 0, 0], [0, 0, 0, 0]]"
  by (simp add: fm_const_def eval_nat_numeral)

lemma matrixA4:
  "matrixA 4 g =
     [[g111 g + g112 g, 0, g121 g, - g122 g],
      [0, g114 g + g113 g, - g123 g, g124 g],
      [g211 g, - g213 g, g223 g + g221 g, 0],
      [- g212 g, g214 g, 0, g222 g + g224 g]]"
  unfolding matrixA_def assign_def fm_const4
  by (simp add: setEntry_def eval_nat_numeral)

lemma matrixB4:
  "matrixB 4 g =
     [[g111 g + g121 g, g112 g - g122 g, 0, 0],
      [0, 0, g113 g - g123 g, g114 g + g124 g],
      [g211 g + g221 g, 0, - g213 g + g223 g, 0],
      [0, - g212 g + g222 g, 0, g214 g + g224 g]]"
  unfolding matrixB_def assign_def fm_const4
  by (simp add: setEntry_def eval_nat_numeral)

lemma matrixC4:
  "matrixC 4 g =
     [[- g111 g, 0, - g121 g, 0],
      [0, g114 g, 0, g124 g],
      [0, - g213 g, g223 g, 0],
      [g212 g, 0, 0, - g222 g]]"
  unfolding matrixC_def assign_def fm_const4
  by (simp add: setEntry_def eval_nat_numeral)

lemma matrixF4:
  "matrixF 4 g =
     [[g111 g + g121 g, 0, 0, 0],
      [0, 0, 0, - g114 g - g124 g],
      [0, 0, g213 g - g223 g, 0],
      [0, - g212 g + g222 g, 0, 0]]"
  unfolding matrixF_def assign_def fm_const4
  by (simp add: setEntry_def eval_nat_numeral)

lemma det3:
  "det [[a0, a1, a2], [b0, b1, b2], [c0, c1, c2]] =
     a0 * (b1 * c2 - b2 * c1) - a1 * (b0 * c2 - b2 * c0) + a2 * (b0 * c1 - b1 * c0)"
  by (simp add: dropCol_def upt_rec eval_nat_numeral algebra_simps)

lemma det4:
  "det [[a0, a1, a2, a3], [b0, b1, b2, b3], [c0, c1, c2, c3], [d0, d1, d2, d3]] =
     a0 * (b1 * (c2 * d3 - c3 * d2) - b2 * (c1 * d3 - c3 * d1) + b3 * (c1 * d2 - c2 * d1))
   - a1 * (b0 * (c2 * d3 - c3 * d2) - b2 * (c0 * d3 - c3 * d0) + b3 * (c0 * d2 - c2 * d0))
   + a2 * (b0 * (c1 * d3 - c3 * d1) - b1 * (c0 * d3 - c3 * d0) + b3 * (c0 * d1 - c1 * d0))
   - a3 * (b0 * (c1 * d2 - c2 * d1) - b1 * (c0 * d2 - c2 * d0) + b2 * (c0 * d1 - c1 * d0))"
  by (simp add: dropCol_def upt_rec eval_nat_numeral algebra_simps)

lemma cofactor_sum_even:
  fixes D :: real
  shows "a * (p / D) + (b * (- (q / D)) + (c * (r / D) + d * (- (s / D))))
       = (a * p - b * q + c * r - d * s) / D"
  by (simp add: diff_divide_distrib add_divide_distrib)

lemma cofactor_sum_odd:
  fixes D :: real
  shows "a * (- (p / D)) + (b * (q / D) + (c * (- (r / D)) + d * (s / D)))
       = (b * q - a * p + d * s - c * r) / D"
  by (simp add: diff_divide_distrib add_divide_distrib)

lemma invert4_inverse:
  assumes "invert 4 [[a0, a1, a2, a3], [b0, b1, b2, b3], [c0, c1, c2, c3], [d0, d1, d2, d3]] = Some Ainv"
  shows "mmult 4 [[a0, a1, a2, a3], [b0, b1, b2, b3], [c0, c1, c2, c3], [d0, d1, d2, d3]] Ainv = munit 4"
proof -
  let ?A = "[[a0, a1, a2, a3], [b0, b1, b2, b3], [c0, c1, c2, c3], [d0, d1, d2, d3]]"
  define D where "D = det ?A"
  have D0: "D \<noteq> 0"
    using assms unfolding invert_def D_def by (simp split: if_splits)
  have Ainv: "Ainv = map (\<lambda>i. map (\<lambda>j. (- 1) ^ (i + j) * det (minor ?A j i) / D) [0..<4]) [0..<4]"
    using assms unfolding invert_def D_def by (simp split: if_splits)
  have Dx: "D =
     a0 * (b1 * (c2 * d3 - c3 * d2) - b2 * (c1 * d3 - c3 * d1) + b3 * (c1 * d2 - c2 * d1))
   - a1 * (b0 * (c2 * d3 - c3 * d2) - b2 * (c0 * d3 - c3 * d0) + b3 * (c0 * d2 - c2 * d0))
   + a2 * (b0 * (c1 * d3 - c3 * d1) - b1 * (c0 * d3 - c3 * d0) + b3 * (c0 * d1 - c1 * d0))
   - a3 * (b0 * (c1 * d2 - c2 * d1) - b1 * (c0 * d2 - c2 * d0) + b2 * (c0 * d1 - c1 * d0))"
    unfolding D_def by (rule det4)
  have c00: "Ainv ! 0 ! 0 = (b1 * (c2 * d3 - c3 * d2) - b2 * (c1 * d3 - c3 * d1) + b3 * (c1 * d2 - c2 * d1)) / D"
    unfolding Ainv upt4 using D0
    by (simp add: minor_def dropCol_def det3 del: det.simps; simp add: field_simps)
  have c01: "Ainv ! 0 ! 1 = - ((a1 * (c2 * d3 - c3 * d2) - a2 * (c1 * d3 - c3 * d1) + a3 * (c1 * d2 - c2 * d1)) / D)"
    unfolding Ainv upt4 using D0
    by (simp add: minor_def dropCol_def det3 del: det.simps; simp add: field_simps)
  have c02: "Ainv ! 0 ! 2 = (a1 * (b2 * d3 - b3 * d2) - a2 * (b1 * d3 - b3 * d1) + a3 * (b1 * d2 - b2 * d1)) / D"
    unfolding Ainv upt4 using D0
    by (simp add: minor_def dropCol_def det3 del: det.simps; simp add: field_simps)
  have c03: "Ainv ! 0 ! 3 = - ((a1 * (b2 * c3 - b3 * c2) - a2 * (b1 * c3 - b3 * c1) + a3 * (b1 * c2 - b2 * c1)) / D)"
    unfolding Ainv upt4 using D0
    by (simp add: minor_def dropCol_def det3 del: det.simps; simp add: field_simps)
  have c10: "Ainv ! 1 ! 0 = - ((b0 * (c2 * d3 - c3 * d2) - b2 * (c0 * d3 - c3 * d0) + b3 * (c0 * d2 - c2 * d0)) / D)"
    unfolding Ainv upt4 using D0
    by (simp add: minor_def dropCol_def det3 del: det.simps; simp add: field_simps)
  have c11: "Ainv ! 1 ! 1 = (a0 * (c2 * d3 - c3 * d2) - a2 * (c0 * d3 - c3 * d0) + a3 * (c0 * d2 - c2 * d0)) / D"
    unfolding Ainv upt4 using D0
    by (simp add: minor_def dropCol_def det3 del: det.simps; simp add: field_simps)
  have c12: "Ainv ! 1 ! 2 = - ((a0 * (b2 * d3 - b3 * d2) - a2 * (b0 * d3 - b3 * d0) + a3 * (b0 * d2 - b2 * d0)) / D)"
    unfolding Ainv upt4 using D0
    by (simp add: minor_def dropCol_def det3 del: det.simps; simp add: field_simps)
  have c13: "Ainv ! 1 ! 3 = (a0 * (b2 * c3 - b3 * c2) - a2 * (b0 * c3 - b3 * c0) + a3 * (b0 * c2 - b2 * c0)) / D"
    unfolding Ainv upt4 using D0
    by (simp add: minor_def dropCol_def det3 del: det.simps; simp add: field_simps)
  have c20: "Ainv ! 2 ! 0 = (b0 * (c1 * d3 - c3 * d1) - b1 * (c0 * d3 - c3 * d0) + b3 * (c0 * d1 - c1 * d0)) / D"
    unfolding Ainv upt4 using D0
    by (simp add: minor_def dropCol_def det3 del: det.simps; simp add: field_simps)
  have c21: "Ainv ! 2 ! 1 = - ((a0 * (c1 * d3 - c3 * d1) - a1 * (c0 * d3 - c3 * d0) + a3 * (c0 * d1 - c1 * d0)) / D)"
    unfolding Ainv upt4 using D0
    by (simp add: minor_def dropCol_def det3 del: det.simps; simp add: field_simps)
  have c22: "Ainv ! 2 ! 2 = (a0 * (b1 * d3 - b3 * d1) - a1 * (b0 * d3 - b3 * d0) + a3 * (b0 * d1 - b1 * d0)) / D"
    unfolding Ainv upt4 using D0
    by (simp add: minor_def dropCol_def det3 del: det.simps; simp add: field_simps)
  have c23: "Ainv ! 2 ! 3 = - ((a0 * (b1 * c3 - b3 * c1) - a1 * (b0 * c3 - b3 * c0) + a3 * (b0 * c1 - b1 * c0)) / D)"
    unfolding Ainv upt4 using D0
    by (simp add: minor_def dropCol_def det3 del: det.simps; simp add: field_simps)
  have c30: "Ainv ! 3 ! 0 = - ((b0 * (c1 * d2 - c2 * d1) - b1 * (c0 * d2 - c2 * d0) + b2 * (c0 * d1 - c1 * d0)) / D)"
    unfolding Ainv upt4 using D0
    by (simp add: minor_def dropCol_def det3 del: det.simps; simp add: field_simps)
  have c31: "Ainv ! 3 ! 1 = (a0 * (c1 * d2 - c2 * d1) - a1 * (c0 * d2 - c2 * d0) + a2 * (c0 * d1 - c1 * d0)) / D"
    unfolding Ainv upt4 using D0
    by (simp add: minor_def dropCol_def det3 del: det.simps; simp add: field_simps)
  have c32: "Ainv ! 3 ! 2 = - ((a0 * (b1 * d2 - b2 * d1) - a1 * (b0 * d2 - b2 * d0) + a2 * (b0 * d1 - b1 * d0)) / D)"
    unfolding Ainv upt4 using D0
    by (simp add: minor_def dropCol_def det3 del: det.simps; simp add: field_simps)
  have c33: "Ainv ! 3 ! 3 = (a0 * (b1 * c2 - b2 * c1) - a1 * (b0 * c2 - b2 * c0) + a2 * (b0 * c1 - b1 * c0)) / D"
    unfolding Ainv upt4 using D0
    by (simp add: minor_def dropCol_def det3 del: det.simps; simp add: field_simps)
  have e00: "a0 * Ainv ! 0 ! 0 + (a1 * Ainv ! 1 ! 0 + (a2 * Ainv ! 2 ! 0 + a3 * Ainv ! 3 ! 0)) = 1"
  proof -
    have "a0 * Ainv ! 0 ! 0 + (a1 * Ainv ! 1 ! 0 + (a2 * Ainv ! 2 ! 0 + a3 * Ainv ! 3 ! 0)) = (a0 * (b1 * (c2 * d3 - c3 * d2) - b2 * (c1 * d3 - c3 * d1) + b3 * (c1 * d2 - c2 * d1)) - a1 * (b0 * (c2 * d3 - c3 * d2) - b2 * (c0 * d3 - c3 * d0) + b3 * (c0 * d2 - c2 * d0)) + a2 * (b0 * (c1 * d3 - c3 * d1) - b1 * (c0 * d3 - c3 * d0) + b3 * (c0 * d1 - c1 * d0)) - a3 * (b0 * (c1 * d2 - c2 * d1) - b1 * (c0 * d2 - c2 * d0) + b2 * (c0 * d1 - c1 * d0))) / D"
      unfolding c00 c10 c20 c30 by (rule cofactor_sum_even)
    also have "a0 * (b1 * (c2 * d3 - c3 * d2) - b2 * (c1 * d3 - c3 * d1) + b3 * (c1 * d2 - c2 * d1)) - a1 * (b0 * (c2 * d3 - c3 * d2) - b2 * (c0 * d3 - c3 * d0) + b3 * (c0 * d2 - c2 * d0)) + a2 * (b0 * (c1 * d3 - c3 * d1) - b1 * (c0 * d3 - c3 * d0) + b3 * (c0 * d1 - c1 * d0)) - a3 * (b0 * (c1 * d2 - c2 * d1) - b1 * (c0 * d2 - c2 * d0) + b2 * (c0 * d1 - c1 * d0)) = D"
      unfolding Dx by (simp add: algebra_simps)
    finally show ?thesis using D0 by simp
  qed
  have e01: "a0 * Ainv ! 0 ! 1 + (a1 * Ainv ! 1 ! 1 + (a2 * Ainv ! 2 ! 1 + a3 * Ainv ! 3 ! 1)) = 0"
  proof -
    have "a0 * Ainv ! 0 ! 1 + (a1 * Ainv ! 1 ! 1 + (a2 * Ainv ! 2 ! 1 + a3 * Ainv ! 3 ! 1)) = (a1 * (a0 * (c2 * d3 - c3 * d2) - a2 * (c0 * d3 - c3 * d0) + a3 * (c0 * d2 - c2 * d0)) - a0 * (a1 * (c2 * d3 - c3 * d2) - a2 * (c1 * d3 - c3 * d1) + a3 * (c1 * d2 - c2 * d1)) + a3 * (a0 * (c1 * d2 - c2 * d1) - a1 * (c0 * d2 - c2 * d0) + a2 * (c0 * d1 - c1 * d0)) - a2 * (a0 * (c1 * d3 - c3 * d1) - a1 * (c0 * d3 - c3 * d0) + a3 * (c0 * d1 - c1 * d0))) / D"
      unfolding c01 c11 c21 c31 by (rule cofactor_sum_odd)
    also have "a1 * (a0 * (c2 * d3 - c3 * d2) - a2 * (c0 * d3 - c3 * d0) + a3 * (c0 * d2 - c2 * d0)) - a0 * (a1 * (c2 * d3 - c3 * d2) - a2 * (c1 * d3 - c3 * d1) + a3 * (c1 * d2 - c2 * d1)) + a3 * (a0 * (c1 * d2 - c2 * d1) - a1 * (c0 * d2 - c2 * d0) + a2 * (c0 * d1 - c1 * d0)) - a2 * (a0 * (c1 * d3 - c3 * d1) - a1 * (c0 * d3 - c3 * d0) + a3 * (c0 * d1 - c1 * d0)) = 0"
      unfolding Dx by (simp add: algebra_simps)
    finally show ?thesis using D0 by simp
  qed
  have e02: "a0 * Ainv ! 0 ! 2 + (a1 * Ainv ! 1 ! 2 + (a2 * Ainv ! 2 ! 2 + a3 * Ainv ! 3 ! 2)) = 0"
  proof -
    have "a0 * Ainv ! 0 ! 2 + (a1 * Ainv ! 1 ! 2 + (a2 * Ainv ! 2 ! 2 + a3 * Ainv ! 3 ! 2)) = (a0 * (a1 * (b2 * d3 - b3 * d2) - a2 * (b1 * d3 - b3 * d1) + a3 * (b1 * d2 - b2 * d1)) - a1 * (a0 * (b2 * d3 - b3 * d2) - a2 * (b0 * d3 - b3 * d0) + a3 * (b0 * d2 - b2 * d0)) + a2 * (a0 * (b1 * d3 - b3 * d1) - a1 * (b0 * d3 - b3 * d0) + a3 * (b0 * d1 - b1 * d0)) - a3 * (a0 * (b1 * d2 - b2 * d1) - a1 * (b0 * d2 - b2 * d0) + a2 * (b0 * d1 - b1 * d0))) / D"
      unfolding c02 c12 c22 c32 by (rule cofactor_sum_even)
    also have "a0 * (a1 * (b2 * d3 - b3 * d2) - a2 * (b1 * d3 - b3 * d1) + a3 * (b1 * d2 - b2 * d1)) - a1 * (a0 * (b2 * d3 - b3 * d2) - a2 * (b0 * d3 - b3 * d0) + a3 * (b0 * d2 - b2 * d0)) + a2 * (a0 * (b1 * d3 - b3 * d1) - a1 * (b0 * d3 - b3 * d0) + a3 * (b0 * d1 - b1 * d0)) - a3 * (a0 * (b1 * d2 - b2 * d1) - a1 * (b0 * d2 - b2 * d0) + a2 * (b0 * d1 - b1 * d0)) = 0"
      unfolding Dx by (simp add: algebra_simps)
    finally show ?thesis using D0 by simp
  qed
  have e03: "a0 * Ainv ! 0 ! 3 + (a1 * Ainv ! 1 ! 3 + (a2 * Ainv ! 2 ! 3 + a3 * Ainv ! 3 ! 3)) = 0"
  proof -
    have "a0 * Ainv ! 0 ! 3 + (a1 * Ainv ! 1 ! 3 + (a2 * Ainv ! 2 ! 3 + a3 * Ainv ! 3 ! 3)) = (a1 * (a0 * (b2 * c3 - b3 * c2) - a2 * (b0 * c3 - b3 * c0) + a3 * (b0 * c2 - b2 * c0)) - a0 * (a1 * (b2 * c3 - b3 * c2) - a2 * (b1 * c3 - b3 * c1) + a3 * (b1 * c2 - b2 * c1)) + a3 * (a0 * (b1 * c2 - b2 * c1) - a1 * (b0 * c2 - b2 * c0) + a2 * (b0 * c1 - b1 * c0)) - a2 * (a0 * (b1 * c3 - b3 * c1) - a1 * (b0 * c3 - b3 * c0) + a3 * (b0 * c1 - b1 * c0))) / D"
      unfolding c03 c13 c23 c33 by (rule cofactor_sum_odd)
    also have "a1 * (a0 * (b2 * c3 - b3 * c2) - a2 * (b0 * c3 - b3 * c0) + a3 * (b0 * c2 - b2 * c0)) - a0 * (a1 * (b2 * c3 - b3 * c2) - a2 * (b1 * c3 - b3 * c1) + a3 * (b1 * c2 - b2 * c1)) + a3 * (a0 * (b1 * c2 - b2 * c1) - a1 * (b0 * c2 - b2 * c0) + a2 * (b0 * c1 - b1 * c0)) - a2 * (a0 * (b1 * c3 - b3 * c1) - a1 * (b0 * c3 - b3 * c0) + a3 * (b0 * c1 - b1 * c0)) = 0"
      unfolding Dx by (simp add: algebra_simps)
    finally show ?thesis using D0 by simp
  qed
  have e10: "b0 * Ainv ! 0 ! 0 + (b1 * Ainv ! 1 ! 0 + (b2 * Ainv ! 2 ! 0 + b3 * Ainv ! 3 ! 0)) = 0"
  proof -
    have "b0 * Ainv ! 0 ! 0 + (b1 * Ainv ! 1 ! 0 + (b2 * Ainv ! 2 ! 0 + b3 * Ainv ! 3 ! 0)) = (b0 * (b1 * (c2 * d3 - c3 * d2) - b2 * (c1 * d3 - c3 * d1) + b3 * (c1 * d2 - c2 * d1)) - b1 * (b0 * (c2 * d3 - c3 * d2) - b2 * (c0 * d3 - c3 * d0) + b3 * (c0 * d2 - c2 * d0)) + b2 * (b0 * (c1 * d3 - c3 * d1) - b1 * (c0 * d3 - c3 * d0) + b3 * (c0 * d1 - c1 * d0)) - b3 * (b0 * (c1 * d2 - c2 * d1) - b1 * (c0 * d2 - c2 * d0) + b2 * (c0 * d1 - c1 * d0))) / D"
      unfolding c00 c10 c20 c30 by (rule cofactor_sum_even)
    also have "b0 * (b1 * (c2 * d3 - c3 * d2) - b2 * (c1 * d3 - c3 * d1) + b3 * (c1 * d2 - c2 * d1)) - b1 * (b0 * (c2 * d3 - c3 * d2) - b2 * (c0 * d3 - c3 * d0) + b3 * (c0 * d2 - c2 * d0)) + b2 * (b0 * (c1 * d3 - c3 * d1) - b1 * (c0 * d3 - c3 * d0) + b3 * (c0 * d1 - c1 * d0)) - b3 * (b0 * (c1 * d2 - c2 * d1) - b1 * (c0 * d2 - c2 * d0) + b2 * (c0 * d1 - c1 * d0)) = 0"
      unfolding Dx by (simp add: algebra_simps)
    finally show ?thesis using D0 by simp
  qed
  have e11: "b0 * Ainv ! 0 ! 1 + (b1 * Ainv ! 1 ! 1 + (b2 * Ainv ! 2 ! 1 + b3 * Ainv ! 3 ! 1)) = 1"
  proof -
    have "b0 * Ainv ! 0 ! 1 + (b1 * Ainv ! 1 ! 1 + (b2 * Ainv ! 2 ! 1 + b3 * Ainv ! 3 ! 1)) = (b1 * (a0 * (c2 * d3 - c3 * d2) - a2 * (c0 * d3 - c3 * d0) + a3 * (c0 * d2 - c2 * d0)) - b0 * (a1 * (c2 * d3 - c3 * d2) - a2 * (c1 * d3 - c3 * d1) + a3 * (c1 * d2 - c2 * d1)) + b3 * (a0 * (c1 * d2 - c2 * d1) - a1 * (c0 * d2 - c2 * d0) + a2 * (c0 * d1 - c1 * d0)) - b2 * (a0 * (c1 * d3 - c3 * d1) - a1 * (c0 * d3 - c3 * d0) + a3 * (c0 * d1 - c1 * d0))) / D"
      unfolding c01 c11 c21 c31 by (rule cofactor_sum_odd)
    also have "b1 * (a0 * (c2 * d3 - c3 * d2) - a2 * (c0 * d3 - c3 * d0) + a3 * (c0 * d2 - c2 * d0)) - b0 * (a1 * (c2 * d3 - c3 * d2) - a2 * (c1 * d3 - c3 * d1) + a3 * (c1 * d2 - c2 * d1)) + b3 * (a0 * (c1 * d2 - c2 * d1) - a1 * (c0 * d2 - c2 * d0) + a2 * (c0 * d1 - c1 * d0)) - b2 * (a0 * (c1 * d3 - c3 * d1) - a1 * (c0 * d3 - c3 * d0) + a3 * (c0 * d1 - c1 * d0)) = D"
      unfolding Dx by (simp add: algebra_simps)
    finally show ?thesis using D0 by simp
  qed
  have e12: "b0 * Ainv ! 0 ! 2 + (b1 * Ainv ! 1 ! 2 + (b2 * Ainv ! 2 ! 2 + b3 * Ainv ! 3 ! 2)) = 0"
  proof -
    have "b0 * Ainv ! 0 ! 2 + (b1 * Ainv ! 1 ! 2 + (b2 * Ainv ! 2 ! 2 + b3 * Ainv ! 3 ! 2)) = (b0 * (a1 * (b2 * d3 - b3 * d2) - a2 * (b1 * d3 - b3 * d1) + a3 * (b1 * d2 - b2 * d1)) - b1 * (a0 * (b2 * d3 - b3 * d2) - a2 * (b0 * d3 - b3 * d0) + a3 * (b0 * d2 - b2 * d0)) + b2 * (a0 * (b1 * d3 - b3 * d1) - a1 * (b0 * d3 - b3 * d0) + a3 * (b0 * d1 - b1 * d0)) - b3 * (a0 * (b1 * d2 - b2 * d1) - a1 * (b0 * d2 - b2 * d0) + a2 * (b0 * d1 - b1 * d0))) / D"
      unfolding c02 c12 c22 c32 by (rule cofactor_sum_even)
    also have "b0 * (a1 * (b2 * d3 - b3 * d2) - a2 * (b1 * d3 - b3 * d1) + a3 * (b1 * d2 - b2 * d1)) - b1 * (a0 * (b2 * d3 - b3 * d2) - a2 * (b0 * d3 - b3 * d0) + a3 * (b0 * d2 - b2 * d0)) + b2 * (a0 * (b1 * d3 - b3 * d1) - a1 * (b0 * d3 - b3 * d0) + a3 * (b0 * d1 - b1 * d0)) - b3 * (a0 * (b1 * d2 - b2 * d1) - a1 * (b0 * d2 - b2 * d0) + a2 * (b0 * d1 - b1 * d0)) = 0"
      unfolding Dx by (simp add: algebra_simps)
    finally show ?thesis using D0 by simp
  qed
  have e13: "b0 * Ainv ! 0 ! 3 + (b1 * Ainv ! 1 ! 3 + (b2 * Ainv ! 2 ! 3 + b3 * Ainv ! 3 ! 3)) = 0"
  proof -
    have "b0 * Ainv ! 0 ! 3 + (b1 * Ainv ! 1 ! 3 + (b2 * Ainv ! 2 ! 3 + b3 * Ainv ! 3 ! 3)) = (b1 * (a0 * (b2 * c3 - b3 * c2) - a2 * (b0 * c3 - b3 * c0) + a3 * (b0 * c2 - b2 * c0)) - b0 * (a1 * (b2 * c3 - b3 * c2) - a2 * (b1 * c3 - b3 * c1) + a3 * (b1 * c2 - b2 * c1)) + b3 * (a0 * (b1 * c2 - b2 * c1) - a1 * (b0 * c2 - b2 * c0) + a2 * (b0 * c1 - b1 * c0)) - b2 * (a0 * (b1 * c3 - b3 * c1) - a1 * (b0 * c3 - b3 * c0) + a3 * (b0 * c1 - b1 * c0))) / D"
      unfolding c03 c13 c23 c33 by (rule cofactor_sum_odd)
    also have "b1 * (a0 * (b2 * c3 - b3 * c2) - a2 * (b0 * c3 - b3 * c0) + a3 * (b0 * c2 - b2 * c0)) - b0 * (a1 * (b2 * c3 - b3 * c2) - a2 * (b1 * c3 - b3 * c1) + a3 * (b1 * c2 - b2 * c1)) + b3 * (a0 * (b1 * c2 - b2 * c1) - a1 * (b0 * c2 - b2 * c0) + a2 * (b0 * c1 - b1 * c0)) - b2 * (a0 * (b1 * c3 - b3 * c1) - a1 * (b0 * c3 - b3 * c0) + a3 * (b0 * c1 - b1 * c0)) = 0"
      unfolding Dx by (simp add: algebra_simps)
    finally show ?thesis using D0 by simp
  qed
  have e20: "c0 * Ainv ! 0 ! 0 + (c1 * Ainv ! 1 ! 0 + (c2 * Ainv ! 2 ! 0 + c3 * Ainv ! 3 ! 0)) = 0"
  proof -
    have "c0 * Ainv ! 0 ! 0 + (c1 * Ainv ! 1 ! 0 + (c2 * Ainv ! 2 ! 0 + c3 * Ainv ! 3 ! 0)) = (c0 * (b1 * (c2 * d3 - c3 * d2) - b2 * (c1 * d3 - c3 * d1) + b3 * (c1 * d2 - c2 * d1)) - c1 * (b0 * (c2 * d3 - c3 * d2) - b2 * (c0 * d3 - c3 * d0) + b3 * (c0 * d2 - c2 * d0)) + c2 * (b0 * (c1 * d3 - c3 * d1) - b1 * (c0 * d3 - c3 * d0) + b3 * (c0 * d1 - c1 * d0)) - c3 * (b0 * (c1 * d2 - c2 * d1) - b1 * (c0 * d2 - c2 * d0) + b2 * (c0 * d1 - c1 * d0))) / D"
      unfolding c00 c10 c20 c30 by (rule cofactor_sum_even)
    also have "c0 * (b1 * (c2 * d3 - c3 * d2) - b2 * (c1 * d3 - c3 * d1) + b3 * (c1 * d2 - c2 * d1)) - c1 * (b0 * (c2 * d3 - c3 * d2) - b2 * (c0 * d3 - c3 * d0) + b3 * (c0 * d2 - c2 * d0)) + c2 * (b0 * (c1 * d3 - c3 * d1) - b1 * (c0 * d3 - c3 * d0) + b3 * (c0 * d1 - c1 * d0)) - c3 * (b0 * (c1 * d2 - c2 * d1) - b1 * (c0 * d2 - c2 * d0) + b2 * (c0 * d1 - c1 * d0)) = 0"
      unfolding Dx by (simp add: algebra_simps)
    finally show ?thesis using D0 by simp
  qed
  have e21: "c0 * Ainv ! 0 ! 1 + (c1 * Ainv ! 1 ! 1 + (c2 * Ainv ! 2 ! 1 + c3 * Ainv ! 3 ! 1)) = 0"
  proof -
    have "c0 * Ainv ! 0 ! 1 + (c1 * Ainv ! 1 ! 1 + (c2 * Ainv ! 2 ! 1 + c3 * Ainv ! 3 ! 1)) = (c1 * (a0 * (c2 * d3 - c3 * d2) - a2 * (c0 * d3 - c3 * d0) + a3 * (c0 * d2 - c2 * d0)) - c0 * (a1 * (c2 * d3 - c3 * d2) - a2 * (c1 * d3 - c3 * d1) + a3 * (c1 * d2 - c2 * d1)) + c3 * (a0 * (c1 * d2 - c2 * d1) - a1 * (c0 * d2 - c2 * d0) + a2 * (c0 * d1 - c1 * d0)) - c2 * (a0 * (c1 * d3 - c3 * d1) - a1 * (c0 * d3 - c3 * d0) + a3 * (c0 * d1 - c1 * d0))) / D"
      unfolding c01 c11 c21 c31 by (rule cofactor_sum_odd)
    also have "c1 * (a0 * (c2 * d3 - c3 * d2) - a2 * (c0 * d3 - c3 * d0) + a3 * (c0 * d2 - c2 * d0)) - c0 * (a1 * (c2 * d3 - c3 * d2) - a2 * (c1 * d3 - c3 * d1) + a3 * (c1 * d2 - c2 * d1)) + c3 * (a0 * (c1 * d2 - c2 * d1) - a1 * (c0 * d2 - c2 * d0) + a2 * (c0 * d1 - c1 * d0)) - c2 * (a0 * (c1 * d3 - c3 * d1) - a1 * (c0 * d3 - c3 * d0) + a3 * (c0 * d1 - c1 * d0)) = 0"
      unfolding Dx by (simp add: algebra_simps)
    finally show ?thesis using D0 by simp
  qed
  have e22: "c0 * Ainv ! 0 ! 2 + (c1 * Ainv ! 1 ! 2 + (c2 * Ainv ! 2 ! 2 + c3 * Ainv ! 3 ! 2)) = 1"
  proof -
    have "c0 * Ainv ! 0 ! 2 + (c1 * Ainv ! 1 ! 2 + (c2 * Ainv ! 2 ! 2 + c3 * Ainv ! 3 ! 2)) = (c0 * (a1 * (b2 * d3 - b3 * d2) - a2 * (b1 * d3 - b3 * d1) + a3 * (b1 * d2 - b2 * d1)) - c1 * (a0 * (b2 * d3 - b3 * d2) - a2 * (b0 * d3 - b3 * d0) + a3 * (b0 * d2 - b2 * d0)) + c2 * (a0 * (b1 * d3 - b3 * d1) - a1 * (b0 * d3 - b3 * d0) + a3 * (b0 * d1 - b1 * d0)) - c3 * (a0 * (b1 * d2 - b2 * d1) - a1 * (b0 * d2 - b2 * d0) + a2 * (b0 * d1 - b1 * d0))) / D"
      unfolding c02 c12 c22 c32 by (rule cofactor_sum_even)
    also have "c0 * (a1 * (b2 * d3 - b3 * d2) - a2 * (b1 * d3 - b3 * d1) + a3 * (b1 * d2 - b2 * d1)) - c1 * (a0 * (b2 * d3 - b3 * d2) - a2 * (b0 * d3 - b3 * d0) + a3 * (b0 * d2 - b2 * d0)) + c2 * (a0 * (b1 * d3 - b3 * d1) - a1 * (b0 * d3 - b3 * d0) + a3 * (b0 * d1 - b1 * d0)) - c3 * (a0 * (b1 * d2 - b2 * d1) - a1 * (b0 * d2 - b2 * d0) + a2 * (b0 * d1 - b1 * d0)) = D"
      unfolding Dx by (simp add: algebra_simps)
    finally show ?thesis using D0 by simp
  qed
  have e23: "c0 * Ainv ! 0 ! 3 + (c1 * Ainv ! 1 ! 3 + (c2 * Ainv ! 2 ! 3 + c3 * Ainv ! 3 ! 3)) = 0"
  proof -
    have "c0 * Ainv ! 0 ! 3 + (c1 * Ainv ! 1 ! 3 + (c2 * Ainv ! 2 ! 3 + c3 * Ainv ! 3 ! 3)) = (c1 * (a0 * (b2 * c3 - b3 * c2) - a2 * (b0 * c3 - b3 * c0) + a3 * (b0 * c2 - b2 * c0)) - c0 * (a1 * (b2 * c3 - b3 * c2) - a2 * (b1 * c3 - b3 * c1) + a3 * (b1 * c2 - b2 * c1)) + c3 * (a0 * (b1 * c2 - b2 * c1) - a1 * (b0 * c2 - b2 * c0) + a2 * (b0 * c1 - b1 * c0)) - c2 * (a0 * (b1 * c3 - b3 * c1) - a1 * (b0 * c3 - b3 * c0) + a3 * (b0 * c1 - b1 * c0))) / D"
      unfolding c03 c13 c23 c33 by (rule cofactor_sum_odd)
    also have "c1 * (a0 * (b2 * c3 - b3 * c2) - a2 * (b0 * c3 - b3 * c0) + a3 * (b0 * c2 - b2 * c0)) - c0 * (a1 * (b2 * c3 - b3 * c2) - a2 * (b1 * c3 - b3 * c1) + a3 * (b1 * c2 - b2 * c1)) + c3 * (a0 * (b1 * c2 - b2 * c1) - a1 * (b0 * c2 - b2 * c0) + a2 * (b0 * c1 - b1 * c0)) - c2 * (a0 * (b1 * c3 - b3 * c1) - a1 * (b0 * c3 - b3 * c0) + a3 * (b0 * c1 - b1 * c0)) = 0"
      unfolding Dx by (simp add: algebra_simps)
    finally show ?thesis using D0 by simp
  qed
  have e30: "d0 * Ainv ! 0 ! 0 + (d1 * Ainv ! 1 ! 0 + (d2 * Ainv ! 2 ! 0 + d3 * Ainv ! 3 ! 0)) = 0"
  proof -
    have "d0 * Ainv ! 0 ! 0 + (d1 * Ainv ! 1 ! 0 + (d2 * Ainv ! 2 ! 0 + d3 * Ainv ! 3 ! 0)) = (d0 * (b1 * (c2 * d3 - c3 * d2) - b2 * (c1 * d3 - c3 * d1) + b3 * (c1 * d2 - c2 * d1)) - d1 * (b0 * (c2 * d3 - c3 * d2) - b2 * (c0 * d3 - c3 * d0) + b3 * (c0 * d2 - c2 * d0)) + d2 * (b0 * (c1 * d3 - c3 * d1) - b1 * (c0 * d3 - c3 * d0) + b3 * (c0 * d1 - c1 * d0)) - d3 * (b0 * (c1 * d2 - c2 * d1) - b1 * (c0 * d2 - c2 * d0) + b2 * (c0 * d1 - c1 * d0))) / D"
      unfolding c00 c10 c20 c30 by (rule cofactor_sum_even)
    also have "d0 * (b1 * (c2 * d3 - c3 * d2) - b2 * (c1 * d3 - c3 * d1) + b3 * (c1 * d2 - c2 * d1)) - d1 * (b0 * (c2 * d3 - c3 * d2) - b2 * (c0 * d3 - c3 * d0) + b3 * (c0 * d2 - c2 * d0)) + d2 * (b0 * (c1 * d3 - c3 * d1) - b1 * (c0 * d3 - c3 * d0) + b3 * (c0 * d1 - c1 * d0)) - d3 * (b0 * (c1 * d2 - c2 * d1) - b1 * (c0 * d2 - c2 * d0) + b2 * (c0 * d1 - c1 * d0)) = 0"
      unfolding Dx by (simp add: algebra_simps)
    finally show ?thesis using D0 by simp
  qed
  have e31: "d0 * Ainv ! 0 ! 1 + (d1 * Ainv ! 1 ! 1 + (d2 * Ainv ! 2 ! 1 + d3 * Ainv ! 3 ! 1)) = 0"
  proof -
    have "d0 * Ainv ! 0 ! 1 + (d1 * Ainv ! 1 ! 1 + (d2 * Ainv ! 2 ! 1 + d3 * Ainv ! 3 ! 1)) = (d1 * (a0 * (c2 * d3 - c3 * d2) - a2 * (c0 * d3 - c3 * d0) + a3 * (c0 * d2 - c2 * d0)) - d0 * (a1 * (c2 * d3 - c3 * d2) - a2 * (c1 * d3 - c3 * d1) + a3 * (c1 * d2 - c2 * d1)) + d3 * (a0 * (c1 * d2 - c2 * d1) - a1 * (c0 * d2 - c2 * d0) + a2 * (c0 * d1 - c1 * d0)) - d2 * (a0 * (c1 * d3 - c3 * d1) - a1 * (c0 * d3 - c3 * d0) + a3 * (c0 * d1 - c1 * d0))) / D"
      unfolding c01 c11 c21 c31 by (rule cofactor_sum_odd)
    also have "d1 * (a0 * (c2 * d3 - c3 * d2) - a2 * (c0 * d3 - c3 * d0) + a3 * (c0 * d2 - c2 * d0)) - d0 * (a1 * (c2 * d3 - c3 * d2) - a2 * (c1 * d3 - c3 * d1) + a3 * (c1 * d2 - c2 * d1)) + d3 * (a0 * (c1 * d2 - c2 * d1) - a1 * (c0 * d2 - c2 * d0) + a2 * (c0 * d1 - c1 * d0)) - d2 * (a0 * (c1 * d3 - c3 * d1) - a1 * (c0 * d3 - c3 * d0) + a3 * (c0 * d1 - c1 * d0)) = 0"
      unfolding Dx by (simp add: algebra_simps)
    finally show ?thesis using D0 by simp
  qed
  have e32: "d0 * Ainv ! 0 ! 2 + (d1 * Ainv ! 1 ! 2 + (d2 * Ainv ! 2 ! 2 + d3 * Ainv ! 3 ! 2)) = 0"
  proof -
    have "d0 * Ainv ! 0 ! 2 + (d1 * Ainv ! 1 ! 2 + (d2 * Ainv ! 2 ! 2 + d3 * Ainv ! 3 ! 2)) = (d0 * (a1 * (b2 * d3 - b3 * d2) - a2 * (b1 * d3 - b3 * d1) + a3 * (b1 * d2 - b2 * d1)) - d1 * (a0 * (b2 * d3 - b3 * d2) - a2 * (b0 * d3 - b3 * d0) + a3 * (b0 * d2 - b2 * d0)) + d2 * (a0 * (b1 * d3 - b3 * d1) - a1 * (b0 * d3 - b3 * d0) + a3 * (b0 * d1 - b1 * d0)) - d3 * (a0 * (b1 * d2 - b2 * d1) - a1 * (b0 * d2 - b2 * d0) + a2 * (b0 * d1 - b1 * d0))) / D"
      unfolding c02 c12 c22 c32 by (rule cofactor_sum_even)
    also have "d0 * (a1 * (b2 * d3 - b3 * d2) - a2 * (b1 * d3 - b3 * d1) + a3 * (b1 * d2 - b2 * d1)) - d1 * (a0 * (b2 * d3 - b3 * d2) - a2 * (b0 * d3 - b3 * d0) + a3 * (b0 * d2 - b2 * d0)) + d2 * (a0 * (b1 * d3 - b3 * d1) - a1 * (b0 * d3 - b3 * d0) + a3 * (b0 * d1 - b1 * d0)) - d3 * (a0 * (b1 * d2 - b2 * d1) - a1 * (b0 * d2 - b2 * d0) + a2 * (b0 * d1 - b1 * d0)) = 0"
      unfolding Dx by (simp add: algebra_simps)
    finally show ?thesis using D0 by simp
  qed
  have e33: "d0 * Ainv ! 0 ! 3 + (d1 * Ainv ! 1 ! 3 + (d2 * Ainv ! 2 ! 3 + d3 * Ainv ! 3 ! 3)) = 1"
  proof -
    have "d0 * Ainv ! 0 ! 3 + (d1 * Ainv ! 1 ! 3 + (d2 * Ainv ! 2 ! 3 + d3 * Ainv ! 3 ! 3)) = (d1 * (a0 * (b2 * c3 - b3 * c2) - a2 * (b0 * c3 - b3 * c0) + a3 * (b0 * c2 - b2 * c0)) - d0 * (a1 * (b2 * c3 - b3 * c2) - a2 * (b1 * c3 - b3 * c1) + a3 * (b1 * c2 - b2 * c1)) + d3 * (a0 * (b1 * c2 - b2 * c1) - a1 * (b0 * c2 - b2 * c0) + a2 * (b0 * c1 - b1 * c0)) - d2 * (a0 * (b1 * c3 - b3 * c1) - a1 * (b0 * c3 - b3 * c0) + a3 * (b0 * c1 - b1 * c0))) / D"
      unfolding c03 c13 c23 c33 by (rule cofactor_sum_odd)
    also have "d1 * (a0 * (b2 * c3 - b3 * c2) - a2 * (b0 * c3 - b3 * c0) + a3 * (b0 * c2 - b2 * c0)) - d0 * (a1 * (b2 * c3 - b3 * c2) - a2 * (b1 * c3 - b3 * c1) + a3 * (b1 * c2 - b2 * c1)) + d3 * (a0 * (b1 * c2 - b2 * c1) - a1 * (b0 * c2 - b2 * c0) + a2 * (b0 * c1 - b1 * c0)) - d2 * (a0 * (b1 * c3 - b3 * c1) - a1 * (b0 * c3 - b3 * c0) + a3 * (b0 * c1 - b1 * c0)) = D"
      unfolding Dx by (simp add: algebra_simps)
    finally show ?thesis using D0 by simp
  qed
  show ?thesis
    using e00 e01 e02 e03 e10 e11 e12 e13
      e20 e21 e22 e23 e30 e31 e32 e33
    unfolding mmult_def munit_def upt4 by simp
qed

lemma invert_matrixA:
  assumes "invert 4 (matrixA 4 g) = Some Ainv"
  shows "mmult 4 (matrixA 4 g) Ainv = munit 4"
  using assms unfolding matrixA4 by (rule invert4_inverse)

lemma exIsIt:
  "elem_intersections (exGrid ! 0) ! 1 =
     \<lparr>boundary = False, indexInInside = 1, neighbor = True, inside = 0, outside = 1,
      geometry_center = [2, 1], geometry_volume = 2, geometry_corners = [[2, 0], [2, 2]],
      centerUnitOuterNormal = [1, 0]\<rparr>"
  by code_simp

lemma exNextisIt:
  "elem_intersections (exGrid ! 0) ! 3 =
     \<lparr>boundary = False, indexInInside = 3, neighbor = True, inside = 0, outside = 2,
      geometry_center = [1, 2], geometry_volume = 2, geometry_corners = [[0, 2], [2, 2]],
      centerUnitOuterNormal = [0, 1]\<rparr>"
  by code_simp


lemma exRegion_gather:
  "gatherRegion4 2 (exProblem exGrid) (variables (exState [1, 2, 3, 4])) 0
     (elem_intersections (exGrid ! 0) ! 1) (elem_intersections (exGrid ! 0) ! 3) = exRegion"
  by code_simp


lemma exG_coeff: "fluxCoefficients 2 exRegion = Some exCoefficients"
  by code_simp


lemma exA: "matrixA 4 exCoefficients = [[2, 0, 0, 0], [0, 2, 0, 0], [0, 0, 2, 0], [0, 0, 0, 2]]"
  by (simp add: matrixA4 exCoefficients_def)


lemma exInv: "invert 4 [[2, 0, 0, 0], [0, 2, 0, 0], [0, 0, 2, 0], [0, 0, 0, 2]]
   = Some [[1 / 2, 0, 0, 0], [0, 1 / 2, 0, 0], [0, 0, 1 / 2, 0], [0, 0, 0, 1 / 2]]"
  by code_simp


lemma exB: "matrixB 4 exCoefficients = [[1, 1, 0, 0], [0, 0, 1, 1], [1, 0, 1, 0], [0, 1, 0, 1]]"
  by (simp add: matrixB4 exCoefficients_def)

lemma exC: "matrixC 4 exCoefficients = [[- 1, 0, 0, 0], [0, 1, 0, 0], [0, 0, 1, 0], [0, 0, 0, - 1]]"
  by (simp add: matrixC4 exCoefficients_def)

lemma exF: "matrixF 4 exCoefficients = [[1, 0, 0, 0], [0, 0, 0, - 1], [0, 0, - 1, 0], [0, 1, 0, 0]]"
  by (simp add: matrixF4 exCoefficients_def)

lemma exT: "transmissibility 4 exCoefficients
     = Inr [[1 / 2, - (1 / 2), 0, 0], [0, 0, 1 / 2, - (1 / 2)],
            [1 / 2, 0, - (1 / 2), 0], [0, 1 / 2, 0, - (1 / 2)]]"
  unfolding transmissibility_def exA exB exC exF exInv by code_simp

lemma exTSpec: "transmissibilitySpec 4 exCoefficients
     = Inr [[1 / 2, 1 / 2, 0, 0], [0, 0, 1 / 2, - (3 / 2)],
            [- (1 / 2), 0, - (1 / 2), 0], [0, 3 / 2, 0, - (1 / 2)]]"
  unfolding transmissibilitySpec_def exA exB exC exF exInv by code_simp

lemma getNextisIt_unsupported:
  "gridImplementation T \<notin> {sGrid T, yaspGrid T, ugGrid T} \<Longrightarrow>
   getNextisIt T isItEnd isIt = Inl NotImplemented"
  by (simp add: getNextisIt_def Let_def)

lemma getNextisIt_supported:
  "gridImplementation T \<in> {sGrid T, yaspGrid T, ugGrid T} \<Longrightarrow>
   \<exists>nextisIt. getNextisIt T isItEnd isIt = Inr nextisIt"
  by (auto simp: getNextisIt_def Let_def)

lemma calculateVelocityCell_unsupported:
  assumes "gridImplementation T \<notin> {sGrid T, yaspGrid T, ugGrid T}"
    and "elem_intersections (gridView p ! globalIdx1) \<noteq> []"
  shows "calculateVelocityCell T boundaryRegion p globalIdx1 st =
     Throw NotImplemented (zeroVelocity (dimension T) globalIdx1 st)"
proof -
  obtain n where n: "length (elem_intersections (gridView p ! globalIdx1)) = Suc n"
    using assms(2) by (cases "elem_intersections (gridView p ! globalIdx1)") auto
  have u: "[0..<Suc n] = 0 # [1..<Suc n]" by (simp add: upt_rec)
  show ?thesis
    unfolding calculateVelocityCell_def Let_def n u
    by (simp add: intersectionStep_def Let_def getNextisIt_unsupported [OF assms(1)])
qed

lemma exZero:
  "zeroVelocity 2 0 (exState [1, 2, 3, 4]) =
     (exState [1, 2, 3, 4])\<lparr>variables := (variables (exState [1, 2, 3, 4]))\<lparr>velocity :=
        [[[0, 0], [0, 0], [0, 0], [0, 0]],
         [[1, 1], [1, 1], [1, 1], [1, 1]],
         [[1, 1], [1, 1], [1, 1], [1, 1]],
         [[1, 1], [1, 1], [1, 1], [1, 1]]]\<rparr>\<rparr>"
  by code_simp

lemma exVelocity:
  "velocity (variables (exState [1, 2, 3, 4])) =
        [[[1, 1], [1, 1], [1, 1], [1, 1]],
         [[1, 1], [1, 1], [1, 1], [1, 1]],
         [[1, 1], [1, 1], [1, 1], [1, 1]],
         [[1, 1], [1, 1], [1, 1], [1, 1]]]"
  by code_simp

lemma velocity_setPotentials:
  "velocity (variables (setPotentials d globalIdx1 loc st)) = velocity (variables st)"
proof -
  have "velocity (variables (fold (\<lambda>i st.
             (let pot = fv_dot d (velocity (variables st) ! globalIdx1 ! i) (unitOuterNormal loc ! i);
                  st = st\<lparr>variables := (variables st)\<lparr>potentialWetting :=
                          setEntry (potentialWetting (variables st)) globalIdx1 i pot\<rparr>\<rparr>
              in st\<lparr>variables := (variables st)\<lparr>potentialNonwetting :=
                      setEntry (potentialNonwetting (variables st)) globalIdx1 i pot\<rparr>\<rparr>)) ks s))
        = velocity (variables s)" for ks and s :: VelocityState
    by (induction ks arbitrary: s) (simp_all add: Let_def)
  then show ?thesis unfolding setPotentials_def by blast
qed



lemma faceFlux_signed:
  "faceFlux 2 st globalIdx1 loc i = signedFaceFlux st globalIdx1 loc i"
  by (simp add: faceFlux_def signedFaceFlux_def fv_dot_def numeral_2_eq_2)

lemma upt_0_4: "[0..<4] = [0, 1, 2, 3]"
  by (simp add: upt_rec)

lemma conservationCheck_2d:
  "dimension T = 2 \<Longrightarrow> velocityFormulation T = vt T \<Longrightarrow>
   conservationCheck T globalIdx1 loc q1 volume1 st =
     (if relativeDifference st globalIdx1 loc q1 volume1 > 1 / 10 ^ 8
      then st\<lparr>cout := cout st @
             [NotConservative (relativeDifference st globalIdx1 loc q1 volume1) globalIdx1
                (map (signedFaceFlux st globalIdx1 loc) [0..<4])]\<rparr>
      else st)"
proof -
  have s4: "sum_list (map f [0, 1, 2, 3]) = f 0 + f 1 + f 2 + f 3" for f :: "nat \<Rightarrow> real"
    by simp
  assume "dimension T = 2" "velocityFormulation T = vt T"
  then show ?thesis
    unfolding conservationCheck_def relativeDifference_def Let_def upt_0_4 s4
    by (simp add: faceFlux_signed)
qed

lemma conservationCheck_off:
  "\<not> (dimension T = 2 \<and> velocityFormulation T = vt T) \<Longrightarrow>
   conservationCheck T globalIdx1 loc q1 volume1 st = st"
  unfolding conservationCheck_def by simp

lemma exStart:
  "(zeroVelocity 2 0 (exState [5]),
    \<lparr>facevol = replicate (2 * 2) 0, unitOuterNormal = replicate (2 * 2) (fv_const 2 0)\<rparr>)
   = ((exState [5])\<lparr>variables := (variables (exState [5]))\<lparr>velocity :=
        [[[0, 0], [0, 0], [0, 0], [0, 0]]]\<rparr>\<rparr>,
      \<lparr>facevol = [0, 0, 0, 0], unitOuterNormal = [[0, 0], [0, 0], [0, 0], [0, 0]]\<rparr>)"
  by code_simp

lemma exRegions:
  "forEach (intersectionStep T exBoundaryRegion exProblem1 0)
     [0..<length (elem_intersections (gridView exProblem1 ! 0))]
     ((exState [5])\<lparr>variables := (variables (exState [5]))\<lparr>velocity :=
        [[[0, 0], [0, 0], [0, 0], [0, 0]]]\<rparr>\<rparr>,
      \<lparr>facevol = [0, 0, 0, 0], unitOuterNormal = [[0, 0], [0, 0], [0, 0], [0, 0]]\<rparr>)
   = Ok (exAfterRegions, exLocals)"
  if "T = exMpfaTypeTag 1 \<or> T = exOtherFormulation"
  using that by (elim disjE; hypsubst) code_simp+

lemma exRelDiff: "relativeDifference exBeforeCheck 0 exLocals 1 4 = 5 / 7"
  by code_simp

lemma exFluxes: "map (signedFaceFlux exBeforeCheck 0 exLocals) [0..<4] = [6, 6, 6, 6]"
  by code_simp

lemma exCout: "cout exBeforeCheck = []"
  by code_simp

lemma exSource:
  "source exProblem1 0 ! wPhaseIdx T + source exProblem1 0 ! nPhaseIdx T = 1"
  "elem_volume (gridView exProblem1 ! 0) = 4"
  if "T = exMpfaTypeTag 1 \<or> T = exOtherFormulation"
  using that by (elim disjE; hypsubst; code_simp)+

lemma exTag:
  "dimension (exMpfaTypeTag 1) = 2" "velocityFormulation (exMpfaTypeTag 1) = vt (exMpfaTypeTag 1)"
  "dimension exOtherFormulation = 2" "velocityFormulation exOtherFormulation \<noteq> vt exOtherFormulation"
  by (simp_all add: exMpfaTypeTag_def exOtherFormulation_def)



















subsection \<open>The transmissibility of the interior region\<close>

text \<open>
  Claim C7, as the code has it. In the interior region of four cells in two dimensions the
  code assembles the four 4x4 matrices \<open>C\<close>, \<open>F\<close>, \<open>A\<close>, \<open>B\<close> from the flux coefficients,
  inverts \<open>A\<close>, and computes the transmissibility \<open>T = F + (C A\<^sup>-\<^sup>1) B\<close>: the product
  \<open>C A\<^sup>-\<^sup>1\<close> is multiplied from the left to \<open>B\<close>. The fluxes are \<open>T u\<close> for the local
  pressure vector \<open>u = [p1, p2, p3, p4]\<close>, and the code adds to the velocities of the two
  faces of cell 1 the unit outer normals scaled by \<open>(T u)[0] / face12vol\<close> and
  \<open>(T u)[2] / face13vol\<close>.
\<close>

theorem interior4_transmissibility:
  assumes "dimension T = 2"
    and "invert 4 (matrixA 4 g) = Some Ainv"
    and "reg = gatherRegion4 2 p (variables st) globalIdx1 isIt nextisIt"
    and "fluxCoefficients 2 reg = Some g"
    and "Tm = fm_add 4 4 (matrixF 4 g) (mmult 4 (mmult 4 (matrixC 4 g) Ainv) (matrixB 4 g))"
    and "Tu = mvmult 4 Tm [press1 reg, press2 reg, press3 reg, press4 reg]"
  shows "transmissibility 4 g = Inr Tm
       \<and> mmult 4 (matrixA 4 g) Ainv = munit 4
       \<and> interior4 T p globalIdx1 isIt nextisIt st =
           Ok (addVelocity 2
                 (addVelocity 2 st globalIdx1 (indexInInside isIt)
                    (fv_scale 2 (centerUnitOuterNormal isIt) (Tu ! 0 / geometry_volume isIt)))
                 globalIdx1 (indexInInside nextisIt)
                 (fv_scale 2 (centerUnitOuterNormal nextisIt) (Tu ! 2 / geometry_volume nextisIt)))
       \<and> matrixA 4 g =
           [[g111 g + g112 g, 0, g121 g, - g122 g],
            [0, g114 g + g113 g, - g123 g, g124 g],
            [g211 g, - g213 g, g223 g + g221 g, 0],
            [- g212 g, g214 g, 0, g222 g + g224 g]]
       \<and> matrixB 4 g =
           [[g111 g + g121 g, g112 g - g122 g, 0, 0],
            [0, 0, g113 g - g123 g, g114 g + g124 g],
            [g211 g + g221 g, 0, - g213 g + g223 g, 0],
            [0, - g212 g + g222 g, 0, g214 g + g224 g]]
       \<and> matrixC 4 g =
           [[- g111 g, 0, - g121 g, 0],
            [0, g114 g, 0, g124 g],
            [0, - g213 g, g223 g, 0],
            [g212 g, 0, 0, - g222 g]]
       \<and> matrixF 4 g =
           [[g111 g + g121 g, 0, 0, 0],
            [0, 0, 0, - g114 g - g124 g],
            [0, 0, g213 g - g223 g, 0],
            [0, - g212 g + g222 g, 0, 0]]"
proof -
  have t: "transmissibility 4 g = Inr Tm"
    using assms(2,5) by (simp add: transmissibility_def rightmultiply_mmult leftmultiply_mmult)
  have r: "unitOuterNormaln1 reg = centerUnitOuterNormal isIt"
      "unitOuterNormaln3 reg = centerUnitOuterNormal nextisIt"
      "face12vol reg = geometry_volume isIt" "face13vol reg = geometry_volume nextisIt"
    by (simp_all add: assms(3) gatherRegion4_def Let_def)
  have i: "interior4 T p globalIdx1 isIt nextisIt st =
      Ok (addVelocity 2
            (addVelocity 2 st globalIdx1 (indexInInside isIt)
               (fv_scale 2 (unitOuterNormaln1 reg) (Tu ! 0 / face12vol reg)))
            globalIdx1 (indexInInside nextisIt)
            (fv_scale 2 (unitOuterNormaln3 reg) (Tu ! 2 / face13vol reg)))"
    unfolding interior4_def Let_def assms(1)
    using t assms(3,4,6) by (simp add: umv_zero localPressure4)
  have a: "mmult 4 (matrixA 4 g) Ainv = munit 4"
    using assms(2) by (rule invert_matrixA)
  show ?thesis
    using t i a unfolding r by (simp only: matrixA4 matrixB4 matrixC4 matrixF4 simp_thms)
qed

theorem interior4_transmissibility_witness:
  "dimension (exMpfaTypeTag 1) = 2
   \<and> invert 4 (matrixA 4 exCoefficients)
       = Some [[1 / 2, 0, 0, 0], [0, 1 / 2, 0, 0], [0, 0, 1 / 2, 0], [0, 0, 0, 1 / 2]]
   \<and> transmissibility 4 exCoefficients
       = Inr [[1 / 2, - (1 / 2), 0, 0], [0, 0, 1 / 2, - (1 / 2)],
              [1 / 2, 0, - (1 / 2), 0], [0, 1 / 2, 0, - (1 / 2)]]
   \<and> interior4 (exMpfaTypeTag 1) (exProblem exGrid) 0
         (elem_intersections (exGrid ! 0) ! 1) (elem_intersections (exGrid ! 0) ! 3)
         (exState [1, 2, 3, 4])
       = Ok (addVelocity 2
               (addVelocity 2 (exState [1, 2, 3, 4]) 0 1 [- (1 / 4), 0])
               0 3 [0, - (1 / 2)])"
proof -
  let ?isIt = "elem_intersections (exGrid ! 0) ! 1"
  let ?nextisIt = "elem_intersections (exGrid ! 0) ! 3"
  let ?Ainv = "[[1 / 2, 0, 0, 0], [0, 1 / 2, 0, 0], [0, 0, 1 / 2, 0], [0, 0, 0, 1 / 2::real]]"
  let ?Tm = "[[1 / 2, - (1 / 2), 0, 0], [0, 0, 1 / 2, - (1 / 2)],
              [1 / 2, 0, - (1 / 2), 0], [0, 1 / 2, 0, - (1 / 2::real)]]"
  have h1: "dimension (exMpfaTypeTag 1) = 2" by code_simp
  have h2: "invert 4 (matrixA 4 exCoefficients) = Some ?Ainv"
    unfolding exA by (rule exInv)
  have h3: "exRegion = gatherRegion4 2 (exProblem exGrid) (variables (exState [1, 2, 3, 4])) 0 ?isIt ?nextisIt"
    by (rule exRegion_gather [symmetric])
  have h4: "fluxCoefficients 2 exRegion = Some exCoefficients"
    by (rule exG_coeff)
  have h5: "?Tm = fm_add 4 4 (matrixF 4 exCoefficients)
               (mmult 4 (mmult 4 (matrixC 4 exCoefficients) ?Ainv) (matrixB 4 exCoefficients))"
    unfolding exB exC exF by code_simp
  have h6: "[- (1 / 2), - (1 / 2), - 1, - 1]
      = mvmult 4 ?Tm [press1 exRegion, press2 exRegion, press3 exRegion, press4 exRegion]"
    by code_simp
  have v1: "fv_scale 2 (centerUnitOuterNormal ?isIt)
        ([- (1 / 2), - (1 / 2), - 1, - 1] ! 0 / geometry_volume ?isIt) = [- (1 / 4), 0]"
    unfolding exIsIt by code_simp
  have v3: "fv_scale 2 (centerUnitOuterNormal ?nextisIt)
        ([- (1 / 2), - (1 / 2), - 1, - 1] ! 2 / geometry_volume ?nextisIt) = [0, - (1 / 2)]"
    unfolding exNextisIt by code_simp
  have i1: "indexInInside ?isIt = 1" unfolding exIsIt by simp
  have i3: "indexInInside ?nextisIt = 3" unfolding exNextisIt by simp
  show ?thesis
    using interior4_transmissibility [OF h1 h2 h3 h4 h5 h6] h1 h2
    unfolding v1 v3 i1 i3 by simp
qed

text \<open>
  On four square cells with unit permeability and mobility the two orders of the product
  give different matrices: the code's first row is \<open>[1/2, -1/2, 0, 0]\<close>, the flux from
  cell 1 to cell 2 for the pressure difference; \<open>F + B (C A\<^sup>-\<^sup>1)\<close> has the first row
  \<open>[1/2, 1/2, 0, 0]\<close>.
\<close>

theorem transmissibility_is_not_F_plus_B_C_Ainv:
  "fluxCoefficients 2
     (gatherRegion4 2 (exProblem exGrid) (variables (exState [1, 2, 3, 4])) 0
        (elem_intersections (exGrid ! 0) ! 1) (elem_intersections (exGrid ! 0) ! 3))
     = Some exCoefficients
   \<and> transmissibility 4 exCoefficients
     = Inr [[1 / 2, - (1 / 2), 0, 0], [0, 0, 1 / 2, - (1 / 2)],
            [1 / 2, 0, - (1 / 2), 0], [0, 1 / 2, 0, - (1 / 2)]]
   \<and> transmissibilitySpec 4 exCoefficients
     = Inr [[1 / 2, 1 / 2, 0, 0], [0, 0, 1 / 2, - (3 / 2)],
            [- (1 / 2), 0, - (1 / 2), 0], [0, 3 / 2, 0, - (1 / 2)]]
   \<and> transmissibility 4 exCoefficients \<noteq> transmissibilitySpec 4 exCoefficients"
  unfolding exRegion_gather exG_coeff exT exTSpec by simp

subsection \<open>Unsupported grid implementations\<close>

text \<open>
  Claim C8, as the code has it. For a grid implementation other than the three that the
  code names, and a grid whose first cell has an intersection, the computation throws
  \<open>NotImplemented\<close> at the first intersection of the first cell, before any interaction
  region is computed; by then it has reset the velocities of the faces of that first cell
  to zero and changed nothing else. For the three named implementations the pairing always
  yields the next intersection and never the error.
\<close>

theorem unsupported_grid_throws:
  "(gridImplementation T \<notin> {sGrid T, yaspGrid T, ugGrid T} \<longrightarrow>
      gridView p \<noteq> [] \<longrightarrow> elem_intersections (gridView p ! 0) \<noteq> [] \<longrightarrow>
      calculateVelocity T boundaryRegion p st =
        Throw NotImplemented (zeroVelocity (dimension T) 0 st))
   \<and> (gridImplementation T \<in> {sGrid T, yaspGrid T, ugGrid T} \<longrightarrow>
        (\<forall>isItEnd isIt. \<exists>nextisIt. getNextisIt T isItEnd isIt = Inr nextisIt))"
proof (intro conjI impI allI)
  assume a: "gridImplementation T \<notin> {sGrid T, yaspGrid T, ugGrid T}"
    and b: "gridView p \<noteq> []" and c: "elem_intersections (gridView p ! 0) \<noteq> []"
  obtain n where n: "length (gridView p) = Suc n"
    using b by (cases "gridView p") auto
  have u: "[0..<Suc n] = 0 # [1..<Suc n]" by (simp add: upt_rec)
  show "calculateVelocity T boundaryRegion p st =
      Throw NotImplemented (zeroVelocity (dimension T) 0 st)"
    unfolding calculateVelocity_def n u
    by (simp add: calculateVelocityCell_unsupported [OF a c])
next
  fix isItEnd isIt
  assume "gridImplementation T \<in> {sGrid T, yaspGrid T, ugGrid T}"
  then show "\<exists>nextisIt. getNextisIt T isItEnd isIt = Inr nextisIt"
    by (rule getNextisIt_supported)
qed

theorem unsupported_grid_throws_witness:
  "gridImplementation (exMpfaTypeTag 4) \<notin>
       {sGrid (exMpfaTypeTag 4), yaspGrid (exMpfaTypeTag 4), ugGrid (exMpfaTypeTag 4)}
   \<and> gridView (exProblem exGrid) \<noteq> []
   \<and> elem_intersections (gridView (exProblem exGrid) ! 0) \<noteq> []
   \<and> calculateVelocity (exMpfaTypeTag 4) noBoundaryRegion (exProblem exGrid) (exState [1, 2, 3, 4])
       = Throw NotImplemented (zeroVelocity 2 0 (exState [1, 2, 3, 4]))
   \<and> gridImplementation (exMpfaTypeTag 1) \<in>
       {sGrid (exMpfaTypeTag 1), yaspGrid (exMpfaTypeTag 1), ugGrid (exMpfaTypeTag 1)}
   \<and> getNextisIt (exMpfaTypeTag 1) 4 2 = Inr 1"
proof -
  have h1: "gridImplementation (exMpfaTypeTag 4) \<notin>
       {sGrid (exMpfaTypeTag 4), yaspGrid (exMpfaTypeTag 4), ugGrid (exMpfaTypeTag 4)}"
    by (simp add: exMpfaTypeTag_def)
  have h2: "gridView (exProblem exGrid) \<noteq> []"
    by (simp add: exProblem_def exGrid_def)
  have h3: "elem_intersections (gridView (exProblem exGrid) ! 0) \<noteq> []"
    by (simp add: exProblem_def exGrid_def cartesianCell_def upt_rec)
  have h4: "gridImplementation (exMpfaTypeTag 1) \<in>
       {sGrid (exMpfaTypeTag 1), yaspGrid (exMpfaTypeTag 1), ugGrid (exMpfaTypeTag 1)}"
    by (simp add: exMpfaTypeTag_def)
  have d: "dimension (exMpfaTypeTag 4) = 2" by (simp add: exMpfaTypeTag_def)
  have g: "getNextisIt (exMpfaTypeTag 1) 4 2 = Inr 1" by code_simp
  from unsupported_grid_throws [of "exMpfaTypeTag 4" "exProblem exGrid" noBoundaryRegion "exState [1, 2, 3, 4]"]
    unsupported_grid_throws [of "exMpfaTypeTag 1" "exProblem exGrid" noBoundaryRegion "exState [1, 2, 3, 4]"]
  show ?thesis using h1 h2 h3 h4 g unfolding d by blast
qed

text \<open>
  With a velocity field that is not zero before the call, the state that the exception
  leaves differs from the state before the call: the velocities of cell 0 are zero.
\<close>

theorem unsupported_grid_writes_velocity:
  "calculateVelocity (exMpfaTypeTag 4) noBoundaryRegion (exProblem exGrid) (exState [1, 2, 3, 4])
     = Throw NotImplemented (zeroVelocity 2 0 (exState [1, 2, 3, 4]))
   \<and> velocity (variables (exState [1, 2, 3, 4])) ! 0 = [[1, 1], [1, 1], [1, 1], [1, 1]]
   \<and> velocity (variables (zeroVelocity 2 0 (exState [1, 2, 3, 4]))) ! 0
       = [[0, 0], [0, 0], [0, 0], [0, 0]]
   \<and> zeroVelocity 2 0 (exState [1, 2, 3, 4]) \<noteq> exState [1, 2, 3, 4]"
proof -
  have c: "calculateVelocity (exMpfaTypeTag 4) noBoundaryRegion (exProblem exGrid) (exState [1, 2, 3, 4])
     = Throw NotImplemented (zeroVelocity 2 0 (exState [1, 2, 3, 4]))"
    by code_simp
  have v: "velocity (variables (zeroVelocity 2 0 (exState [1, 2, 3, 4]))) ! 0
       = [[0, 0], [0, 0], [0, 0], [0, 0]]"
    unfolding exZero by simp
  have w: "velocity (variables (exState [1, 2, 3, 4])) ! 0 = [[1, 1], [1, 1], [1, 1], [1, 1]]"
    unfolding exVelocity by simp
  have "zeroVelocity 2 0 (exState [1, 2, 3, 4]) \<noteq> exState [1, 2, 3, 4]"
    using v w by auto
  then show ?thesis using c v w by simp
qed

subsection \<open>The conservation check\<close>

text \<open>
  Claim C9, as the code has it. The check runs in two dimensions only when the velocity
  formulation is the total velocity. After all interaction regions of a cell have been
  processed and the potentials set, the cell computation then forms the relative
  difference between the signed sum of the face fluxes (velocity times outer normal times
  face area over the four faces) and the source term times the cell volume, and when it
  exceeds \<open>1e-8\<close> it appends one line to the output. The cell ends normally in either
  case, and nothing but the output differs from the state before the check; the
  velocities are those the interaction regions left. In another dimension or with another
  velocity formulation the state is returned as it is.
\<close>

theorem conservationCheck_only_logs:
  assumes "forEach (intersectionStep T boundaryRegion p globalIdx1)
             [0..<length (elem_intersections (gridView p ! globalIdx1))]
             (zeroVelocity (dimension T) globalIdx1 st0,
              \<lparr>facevol = replicate (2 * dimension T) 0,
               unitOuterNormal = replicate (2 * dimension T) (fv_const (dimension T) 0)\<rparr>)
           = Ok s"
    and "st = setPotentials (dimension T) globalIdx1 (snd s) (fst s)"
    and "q1 = source p globalIdx1 ! wPhaseIdx T + source p globalIdx1 ! nPhaseIdx T"
    and "volume1 = elem_volume (gridView p ! globalIdx1)"
  shows "calculateVelocityCell T boundaryRegion p globalIdx1 st0 =
           Ok (if dimension T = 2 \<and> velocityFormulation T = vt T
                  \<and> relativeDifference st globalIdx1 (snd s) q1 volume1 > 1 / 10 ^ 8
               then st\<lparr>cout := cout st @
                      [NotConservative (relativeDifference st globalIdx1 (snd s) q1 volume1)
                         globalIdx1 (map (signedFaceFlux st globalIdx1 (snd s)) [0..<4])]\<rparr>
               else st)
         \<and> velocity (variables st) = velocity (variables (fst s))"
proof
  have cell: "calculateVelocityCell T boundaryRegion p globalIdx1 st0 =
      Ok (conservationCheck T globalIdx1 (snd s) q1 volume1 st)"
    unfolding calculateVelocityCell_def Let_def assms(1) assms(2) assms(3) assms(4) by simp
  show "calculateVelocityCell T boundaryRegion p globalIdx1 st0 =
           Ok (if dimension T = 2 \<and> velocityFormulation T = vt T
                  \<and> relativeDifference st globalIdx1 (snd s) q1 volume1 > 1 / 10 ^ 8
               then st\<lparr>cout := cout st @
                      [NotConservative (relativeDifference st globalIdx1 (snd s) q1 volume1)
                         globalIdx1 (map (signedFaceFlux st globalIdx1 (snd s)) [0..<4])]\<rparr>
               else st)"
  proof (cases "dimension T = 2 \<and> velocityFormulation T = vt T")
    case True
    then show ?thesis unfolding cell by (simp add: conservationCheck_2d)
  next
    case False
    then show ?thesis unfolding cell conservationCheck_off [OF False] by auto
  qed
  show "velocity (variables st) = velocity (variables (fst s))"
    unfolding assms(2) by (rule velocity_setPotentials)
qed

theorem conservationCheck_only_logs_witness:
  "forEach (intersectionStep (exMpfaTypeTag 1) exBoundaryRegion exProblem1 0)
     [0..<length (elem_intersections (gridView exProblem1 ! 0))]
     (zeroVelocity (dimension (exMpfaTypeTag 1)) 0 (exState [5]),
      \<lparr>facevol = replicate (2 * dimension (exMpfaTypeTag 1)) 0,
       unitOuterNormal = replicate (2 * dimension (exMpfaTypeTag 1))
                           (fv_const (dimension (exMpfaTypeTag 1)) 0)\<rparr>)
   = Ok (exAfterRegions, exLocals)
   \<and> exBeforeCheck = setPotentials (dimension (exMpfaTypeTag 1)) 0 exLocals exAfterRegions
   \<and> relativeDifference exBeforeCheck 0 exLocals 1 4 = 5 / 7
   \<and> calculateVelocityCell (exMpfaTypeTag 1) exBoundaryRegion exProblem1 0 (exState [5])
       = Ok (exBeforeCheck\<lparr>cout := [NotConservative (5 / 7) 0 [6, 6, 6, 6]]\<rparr>)
   \<and> velocity (variables exBeforeCheck) = [[[- 3, 0], [3, 0], [0, - 3], [0, 3]]]"
proof -
  have h1: "forEach (intersectionStep (exMpfaTypeTag 1) exBoundaryRegion exProblem1 0)
     [0..<length (elem_intersections (gridView exProblem1 ! 0))]
     (zeroVelocity (dimension (exMpfaTypeTag 1)) 0 (exState [5]),
      \<lparr>facevol = replicate (2 * dimension (exMpfaTypeTag 1)) 0,
       unitOuterNormal = replicate (2 * dimension (exMpfaTypeTag 1))
                           (fv_const (dimension (exMpfaTypeTag 1)) 0)\<rparr>)
   = Ok (exAfterRegions, exLocals)"
    unfolding exTag exStart by (rule exRegions) simp
  have h2: "exBeforeCheck = setPotentials (dimension (exMpfaTypeTag 1)) 0
      (snd (exAfterRegions, exLocals)) (fst (exAfterRegions, exLocals))"
    unfolding exTag exBeforeCheck_def by simp
  have h3: "1 = source exProblem1 0 ! wPhaseIdx (exMpfaTypeTag 1)
      + source exProblem1 0 ! nPhaseIdx (exMpfaTypeTag 1)"
    by (rule exSource(1) [symmetric]) simp
  have h4: "4 = elem_volume (gridView exProblem1 ! 0)"
    by (rule exSource(2) [symmetric, where T = "exMpfaTypeTag 1"]) simp
  have v: "velocity (variables exAfterRegions) = [[[- 3, 0], [3, 0], [0, - 3], [0, 3]]]"
    by code_simp
  note t = conservationCheck_only_logs [OF h1 h2 h3 h4, unfolded snd_conv fst_conv exRelDiff exFluxes exCout exTag v]
  have c: "calculateVelocityCell (exMpfaTypeTag 1) exBoundaryRegion exProblem1 0 (exState [5])
       = Ok (exBeforeCheck\<lparr>cout := [NotConservative (5 / 7) 0 [6, 6, 6, 6]]\<rparr>)"
    using t [THEN conjunct1] by simp
  show ?thesis
    using h1 h2 [unfolded snd_conv fst_conv] exRelDiff c t [THEN conjunct2] by (intro conjI)
qed

text \<open>
  Claim C9 as stated, for every two-dimensional run, does not hold: with a velocity
  formulation other than the total velocity the same cell, with the same relative
  difference \<open>5 / 7\<close>, ends without any output.
\<close>

theorem conservationCheck_skipped_in_2d:
  "dimension exOtherFormulation = 2
   \<and> relativeDifference exBeforeCheck 0 exLocals 1 4 = 5 / 7
   \<and> (5 / 7 :: real) > 1 / 10 ^ 8
   \<and> calculateVelocityCell exOtherFormulation exBoundaryRegion exProblem1 0 (exState [5])
       = Ok exBeforeCheck
   \<and> cout exBeforeCheck = []"
proof -
  have r: "forEach (intersectionStep exOtherFormulation exBoundaryRegion exProblem1 0)
     [0..<length (elem_intersections (gridView exProblem1 ! 0))]
     (zeroVelocity (dimension exOtherFormulation) 0 (exState [5]),
      \<lparr>facevol = replicate (2 * dimension exOtherFormulation) 0,
       unitOuterNormal = replicate (2 * dimension exOtherFormulation)
                           (fv_const (dimension exOtherFormulation) 0)\<rparr>)
   = Ok (exAfterRegions, exLocals)"
    unfolding exTag exStart by (rule exRegions) simp
  have "calculateVelocityCell exOtherFormulation exBoundaryRegion exProblem1 0 (exState [5])
       = Ok (conservationCheck exOtherFormulation 0 exLocals
               (source exProblem1 0 ! wPhaseIdx exOtherFormulation
                  + source exProblem1 0 ! nPhaseIdx exOtherFormulation)
               (elem_volume (gridView exProblem1 ! 0))
               (setPotentials (dimension exOtherFormulation) 0 exLocals exAfterRegions))"
    unfolding calculateVelocityCell_def Let_def r by simp
  also have "\<dots> = Ok exBeforeCheck"
    using exTag(3,4) by (simp add: conservationCheck_off exBeforeCheck_def)
  finally show ?thesis
    using exTag(3) exRelDiff exCout by simp
qed

subsection \<open>A region without a fourth cell\<close>



end
